theory Spec2Isabelle
  imports Complex_Main "HOL-Library.Sublist"
begin

section \<open>Coaster track drawing: numbers, points and constants\<close>

text \<open>
  The module \<^verbatim>\<open>src/components/coaster/tracks/trackDrawing.ts\<close> draws roller coaster
  track on a 2D canvas. A TypeScript \<^verbatim>\<open>number\<close> is modelled as a \<^typ>\<open>real\<close>:
  the arithmetic of the source is read as exact arithmetic, so "equal within floating-point
  tolerance" becomes equality. Where the source divides, the model says what the divisor is;
  a quotient \<^verbatim>\<open>0 / 0\<close>, which is \<^verbatim>\<open>NaN\<close> in the source, is the value
  \<^term>\<open>None\<close> of an option type. Exact arithmetic never absorbs a small summand in a
  large one and never rounds a sum; where that decides a property, the rounding of double
  arithmetic is written out (section "Double arithmetic"), or the property is stated for
  values that doubles compute exactly.

  \<^verbatim>\<open>interface Point { x: number; y: number }\<close> (the fields are named \<open>px\<close> and
  \<open>py\<close> here, so that \<open>x\<close> and \<open>y\<close> stay free for variables).
\<close>

record point =
  px :: real
  py :: real

definition TILE_WIDTH :: real where "TILE_WIDTH = 64"
definition HEIGHT_RATIO :: real where "HEIGHT_RATIO = 0.60"
definition TILE_HEIGHT :: real where "TILE_HEIGHT = TILE_WIDTH * HEIGHT_RATIO"

definition TRACK_WIDTH :: real where "TRACK_WIDTH = 8"
definition RAIL_WIDTH :: real where "RAIL_WIDTH = 2"
definition TIE_LENGTH :: real where "TIE_LENGTH = 12"
definition TIE_SPACING :: real where "TIE_SPACING = 8"
definition HEIGHT_UNIT :: real where "HEIGHT_UNIT = 20"

text \<open>The entries of the table \<^verbatim>\<open>COLORS\<close>.\<close>

definition COLORS_rail :: string where "COLORS_rail = ''#4b5563''"
definition COLORS_tie :: string where "COLORS_tie = ''#78350f''"
definition COLORS_woodMain :: string where "COLORS_woodMain = ''#8B4513''"
definition COLORS_woodDark :: string where "COLORS_woodDark = ''#5D3A1A''"
definition COLORS_woodLight :: string where "COLORS_woodLight = ''#A0522D''"
definition COLORS_woodAccent :: string where "COLORS_woodAccent = ''#654321''"
definition COLORS_metalMain :: string where "COLORS_metalMain = ''#4A5568''"
definition COLORS_metalDark :: string where "COLORS_metalDark = ''#2D3748''"
definition COLORS_metalLight :: string where "COLORS_metalLight = ''#718096''"
definition COLORS_metalRivet :: string where "COLORS_metalRivet = ''#1A202C''"

text \<open>
  \<^verbatim>\<open>type TrackDirection = 'north' | 'east' | 'south' | 'west'\<close> and the imported
  \<^verbatim>\<open>StrutStyle\<close>, whose two values \<^verbatim>\<open>'wood'\<close> and \<^verbatim>\<open>'metal'\<close> the source
  compares against.
\<close>

datatype TrackDirection = North | East | South | West

datatype StrutStyle = Wood | Metal

subsection \<open>Isometric helpers\<close>

definition gridToScreen :: "real \<Rightarrow> real \<Rightarrow> point" where
  "gridToScreen gridX gridY =
     \<lparr>px = (gridX - gridY) * (TILE_WIDTH / 2), py = (gridX + gridY) * (TILE_HEIGHT / 2)\<rparr>"

definition gridToScreen3D :: "real \<Rightarrow> real \<Rightarrow> real \<Rightarrow> point" where
  "gridToScreen3D gridX gridY height =
     (let p = gridToScreen gridX gridY in \<lparr>px = px p, py = py p - height * HEIGHT_UNIT\<rparr>)"

text \<open>The table \<^verbatim>\<open>DIRECTIONS\<close> of screen-space direction vectors.\<close>

record dirvec =
  dx :: real
  dy :: real

fun DIRECTIONS :: "TrackDirection \<Rightarrow> dirvec" where
  "DIRECTIONS North = \<lparr>dx = - 0.7071, dy = - 0.4243\<rparr>"
| "DIRECTIONS East = \<lparr>dx = 0.7071, dy = - 0.4243\<rparr>"
| "DIRECTIONS South = \<lparr>dx = 0.7071, dy = 0.4243\<rparr>"
| "DIRECTIONS West = \<lparr>dx = - 0.7071, dy = 0.4243\<rparr>"

text \<open>\<^verbatim>\<open>Math.hypot\<close> of two arguments.\<close>

definition hypot :: "real \<Rightarrow> real \<Rightarrow> real" where
  "hypot a b = sqrt (a * a + b * b)"

subsection \<open>Bezier curve helpers\<close>

definition bezierPoint :: "point \<Rightarrow> point \<Rightarrow> point \<Rightarrow> point \<Rightarrow> real \<Rightarrow> point" where
  "bezierPoint p0 p1 p2 p3 t =
     (let u = 1 - t; tt = t * t; uu = u * u; uuu = uu * u; ttt = tt * t in
      \<lparr>px = uuu * px p0 + 3 * uu * t * px p1 + 3 * u * tt * px p2 + ttt * px p3,
       py = uuu * py p0 + 3 * uu * t * py p1 + 3 * u * tt * py p2 + ttt * py p3\<rparr>)"

definition bezierTangent :: "point \<Rightarrow> point \<Rightarrow> point \<Rightarrow> point \<Rightarrow> real \<Rightarrow> point" where
  "bezierTangent p0 p1 p2 p3 t =
     (let u = 1 - t; tt = t * t; uu = u * u in
      \<lparr>px = 3 * uu * (px p1 - px p0) + 6 * u * t * (px p2 - px p1) + 3 * tt * (px p3 - px p2),
       py = 3 * uu * (py p1 - py p0) + 6 * u * t * (py p2 - py p1) + 3 * tt * (py p3 - py p2)\<rparr>)"

text \<open>
  The quadratic curve of \<^verbatim>\<open>drawCurvedTrack\<close>. The source writes the point, the
  tangent and the perpendicular inline, three times the point (support, ties, rails) and
  twice the tangent and the perpendicular (ties, rails), each time the same expressions
  in \<^verbatim>\<open>fromEdge\<close>, \<^verbatim>\<open>center\<close>, \<^verbatim>\<open>toEdge\<close> and \<^verbatim>\<open>t\<close>.
\<close>

definition quadraticPoint :: "point \<Rightarrow> point \<Rightarrow> point \<Rightarrow> real \<Rightarrow> point" where
  "quadraticPoint fromEdge center toEdge t =
     (let u = 1 - t in
      \<lparr>px = u * u * px fromEdge + 2 * u * t * px center + t * t * px toEdge,
       py = u * u * py fromEdge + 2 * u * t * py center + t * t * py toEdge\<rparr>)"

definition quadraticTangent :: "point \<Rightarrow> point \<Rightarrow> point \<Rightarrow> real \<Rightarrow> point" where
  "quadraticTangent fromEdge center toEdge t =
     \<lparr>px = 2 * (1 - t) * (px center - px fromEdge) + 2 * t * (px toEdge - px center),
      py = 2 * (1 - t) * (py center - py fromEdge) + 2 * t * (py toEdge - py center)\<rparr>"

section \<open>The canvas\<close>

text \<open>
  The renderers only write to the \<^verbatim>\<open>CanvasRenderingContext2D\<close> they are handed:
  they set its paint state and call its path methods, and read nothing back. A renderer
  is modelled as the list of these operations, in the order the source performs them.
\<close>

datatype canvas_op =
    SetStrokeStyle string
  | SetFillStyle string
  | SetLineWidth real
  | SetLineCap string
  | BeginPath
  | MoveTo real real
  | LineTo real real
  | Arc real real real real real
  | ClosePath
  | Stroke
  | Fill
  | FillRect real real real real

text \<open>
  What a list of operations strokes: for every \<^verbatim>\<open>stroke()\<close>, the stroke style in force
  and the points that \<^verbatim>\<open>moveTo\<close> and \<^verbatim>\<open>lineTo\<close> put on the path since the last
  \<^verbatim>\<open>beginPath()\<close>. The first two arguments are the stroke style and the path before
  the operations.
\<close>

fun strokes :: "string \<Rightarrow> point list \<Rightarrow> canvas_op list \<Rightarrow> (string \<times> point list) list" where
  "strokes st path [] = []"
| "strokes st path (SetStrokeStyle s # ops) = strokes s path ops"
| "strokes st path (BeginPath # ops) = strokes st [] ops"
| "strokes st path (MoveTo a b # ops) = strokes st (path @ [\<lparr>px = a, py = b\<rparr>]) ops"
| "strokes st path (LineTo a b # ops) = strokes st (path @ [\<lparr>px = a, py = b\<rparr>]) ops"
| "strokes st path (Stroke # ops) = (st, path) # strokes st path ops"
| "strokes st path (_ # ops) = strokes st path ops"

text \<open>The paths stroked in the style \<open>c\<close>.\<close>

definition strokesIn :: "string \<Rightarrow> canvas_op list \<Rightarrow> point list list" where
  "strokesIn c ops = map snd (filter (\<lambda>s. fst s = c) (strokes [] [] ops))"

text \<open>The centres of the arcs drawn.\<close>

fun arcCentres :: "canvas_op list \<Rightarrow> point list" where
  "arcCentres [] = []"
| "arcCentres (Arc a b r a0 a1 # ops) = \<lparr>px = a, py = b\<rparr> # arcCentres ops"
| "arcCentres (_ # ops) = arcCentres ops"

section \<open>Support structures\<close>

text \<open>
  \<^verbatim>\<open>drawWoodSupport\<close>. The optional \<^verbatim>\<open>perp\<close> is an option; \<^verbatim>\<open>perp?.x ?? 1\<close> and
  \<^verbatim>\<open>perp?.y ?? 0\<close> are the two case distinctions. \<open>woodSection\<close> is the body of the
  loop over the sections.
\<close>

definition woodSection ::
  "real \<Rightarrow> real \<Rightarrow> real \<Rightarrow> real \<Rightarrow> real \<Rightarrow> real \<Rightarrow> real \<Rightarrow> real \<Rightarrow> int \<Rightarrow> int \<Rightarrow> canvas_op list" where
  "woodSection leftBaseX leftBaseY leftTopX leftTopYOffset
               rightBaseX rightBaseY rightTopX rightTopYOffset numSections i =
     (let t1 = of_int i / of_int numSections;
          t2 = (of_int i + 1) / of_int numSections;
          topLeftX = leftBaseX + (leftTopX - leftBaseX) * t2;
          topLeftY = leftBaseY + (leftTopYOffset - leftBaseY) * t2;
          bottomLeftX = leftBaseX + (leftTopX - leftBaseX) * t1;
          bottomLeftY = leftBaseY + (leftTopYOffset - leftBaseY) * t1;
          topRightX = rightBaseX + (rightTopX - rightBaseX) * t2;
          topRightY = rightBaseY + (rightTopYOffset - rightBaseY) * t2;
          bottomRightX = rightBaseX + (rightTopX - rightBaseX) * t1;
          bottomRightY = rightBaseY + (rightTopYOffset - rightBaseY) * t1
      in (if i > 0
          then [SetStrokeStyle COLORS_woodAccent, SetLineWidth 2, BeginPath,
                MoveTo bottomLeftX bottomLeftY, LineTo bottomRightX bottomRightY, Stroke]
          else [])
         @ [SetStrokeStyle COLORS_woodAccent, SetLineWidth 1.5,
            BeginPath, MoveTo bottomLeftX bottomLeftY, LineTo topRightX topRightY, Stroke,
            BeginPath, MoveTo bottomRightX bottomRightY, LineTo topLeftX topLeftY, Stroke])"

definition drawWoodSupport :: "real \<Rightarrow> real \<Rightarrow> real \<Rightarrow> point option \<Rightarrow> canvas_op list" where
  "drawWoodSupport x groundY height perp =
     (if height \<le> 0 then []
      else
        let columnSpacing = 6;
            perpX = (case perp of None \<Rightarrow> 1 | Some p \<Rightarrow> px p);
            perpY = (case perp of None \<Rightarrow> 0 | Some p \<Rightarrow> py p);
            offsetX = perpX * columnSpacing;
            offsetY = perpY * columnSpacing;
            supportHeight = height * HEIGHT_UNIT;
            woodWidth = 3;
            leftBaseX = x - offsetX;
            leftBaseY = groundY - offsetY;
            leftTopY = leftBaseY - supportHeight;
            rightBaseX = x + offsetX;
            rightBaseY = groundY + offsetY;
            rightTopY = rightBaseY - supportHeight;
            leanFactor = 0.15;
            leftTopX = leftBaseX + offsetX * leanFactor;
            rightTopX = rightBaseX - offsetX * leanFactor;
            leftTopYOffset = leftTopY + offsetY * leanFactor;
            rightTopYOffset = rightTopY - offsetY * leanFactor;
            numSections = max 2 \<lceil>height * 1.5\<rceil>;
            blockSize = 3
        in [SetStrokeStyle COLORS_woodDark, SetLineWidth (woodWidth + 1.5), SetLineCap ''square'',
            BeginPath, MoveTo (leftBaseX + 0.5) (leftBaseY + 0.5),
            LineTo (leftTopX + 0.5) (leftTopYOffset + 0.5), Stroke,
            BeginPath, MoveTo (rightBaseX + 0.5) (rightBaseY + 0.5),
            LineTo (rightTopX + 0.5) (rightTopYOffset + 0.5), Stroke,
            SetStrokeStyle COLORS_woodMain, SetLineWidth woodWidth,
            BeginPath, MoveTo leftBaseX leftBaseY, LineTo leftTopX leftTopYOffset, Stroke,
            BeginPath, MoveTo rightBaseX rightBaseY, LineTo rightTopX rightTopYOffset, Stroke,
            SetStrokeStyle COLORS_woodLight, SetLineWidth 1,
            BeginPath, MoveTo (leftBaseX - 0.5) leftBaseY,
            LineTo (leftTopX - 0.5) leftTopYOffset, Stroke,
            BeginPath, MoveTo (rightBaseX - 0.5) rightBaseY,
            LineTo (rightTopX - 0.5) rightTopYOffset, Stroke]
           @ concat (map (woodSection leftBaseX leftBaseY leftTopX leftTopYOffset
                            rightBaseX rightBaseY rightTopX rightTopYOffset numSections)
                         [0..numSections - 1])
           @ [SetStrokeStyle COLORS_woodDark, SetLineWidth 3,
              BeginPath, MoveTo leftTopX leftTopYOffset, LineTo rightTopX rightTopYOffset, Stroke,
              SetStrokeStyle COLORS_woodMain, SetLineWidth 2.5,
              BeginPath, MoveTo leftTopX leftTopYOffset, LineTo rightTopX rightTopYOffset, Stroke,
              SetFillStyle COLORS_woodDark,
              FillRect (leftBaseX - blockSize / 2) (leftBaseY - 1) blockSize 3,
              FillRect (rightBaseX - blockSize / 2) (rightBaseY - 1) blockSize 3])"

text \<open>\<^verbatim>\<open>drawMetalSupport\<close>; \<open>metalBrace\<close> is the body of the loop over the braces.\<close>

definition metalBrace ::
  "real \<Rightarrow> real \<Rightarrow> real \<Rightarrow> real \<Rightarrow> real \<Rightarrow> real \<Rightarrow> int \<Rightarrow> int \<Rightarrow> canvas_op list" where
  "metalBrace leftBaseX leftBaseY leftTopY rightBaseX rightBaseY rightTopY numBraces i =
     (let t = of_int i / (of_int numBraces + 1);
          leftBraceY = leftTopY + (leftBaseY - leftTopY) * t;
          rightBraceY = rightTopY + (rightBaseY - rightTopY) * t
      in [SetStrokeStyle COLORS_metalDark, SetLineWidth 2,
          BeginPath, MoveTo leftBaseX leftBraceY, LineTo rightBaseX rightBraceY, Stroke,
          SetStrokeStyle COLORS_metalMain, SetLineWidth 1.5,
          BeginPath, MoveTo leftBaseX leftBraceY, LineTo rightBaseX rightBraceY, Stroke]
         @ (if i < numBraces
            then
              let nextT = (of_int i + 1) / (of_int numBraces + 1);
                  nextLeftBraceY = leftTopY + (leftBaseY - leftTopY) * nextT;
                  nextRightBraceY = rightTopY + (rightBaseY - rightTopY) * nextT;
                  midX = (leftBaseX + rightBaseX) / 2;
                  midY = (leftBraceY + rightBraceY) / 2
              in [SetStrokeStyle COLORS_metalMain, SetLineWidth 1,
                  BeginPath, MoveTo midX midY, LineTo leftBaseX nextLeftBraceY, Stroke,
                  BeginPath, MoveTo midX midY, LineTo rightBaseX nextRightBraceY, Stroke]
            else []))"

definition drawMetalSupport :: "real \<Rightarrow> real \<Rightarrow> real \<Rightarrow> point option \<Rightarrow> canvas_op list" where
  "drawMetalSupport x groundY height perp =
     (if height \<le> 0 then []
      else
        let columnSpacing = 5;
            perpX = (case perp of None \<Rightarrow> 1 | Some p \<Rightarrow> px p);
            perpY = (case perp of None \<Rightarrow> 0 | Some p \<Rightarrow> py p);
            offsetX = perpX * columnSpacing;
            offsetY = perpY * columnSpacing;
            supportHeight = height * HEIGHT_UNIT;
            beamWidth = 2.5;
            leftBaseX = x - offsetX;
            leftBaseY = groundY - offsetY;
            leftTopY = leftBaseY - supportHeight;
            rightBaseX = x + offsetX;
            rightBaseY = groundY + offsetY;
            rightTopY = rightBaseY - supportHeight;
            numBraces = max 1 \<lfloor>height / 1.5\<rfloor>;
            plateSize = 4;
            plateHeight = 2;
            rivetSize = 1
        in [SetStrokeStyle COLORS_metalDark, SetLineWidth (beamWidth + 1), SetLineCap ''butt'',
            BeginPath, MoveTo (leftBaseX + 0.5) (leftBaseY + 0.5),
            LineTo (leftBaseX + 0.5) (leftTopY + 0.5), Stroke,
            BeginPath, MoveTo (rightBaseX + 0.5) (rightBaseY + 0.5),
            LineTo (rightBaseX + 0.5) (rightTopY + 0.5), Stroke,
            SetStrokeStyle COLORS_metalMain, SetLineWidth beamWidth,
            BeginPath, MoveTo leftBaseX leftBaseY, LineTo leftBaseX leftTopY, Stroke,
            BeginPath, MoveTo rightBaseX rightBaseY, LineTo rightBaseX rightTopY, Stroke,
            SetStrokeStyle COLORS_metalLight, SetLineWidth 0.8,
            BeginPath, MoveTo (leftBaseX - 0.8) leftBaseY, LineTo (leftBaseX - 0.8) leftTopY, Stroke,
            BeginPath, MoveTo (rightBaseX - 0.8) rightBaseY, LineTo (rightBaseX - 0.8) rightTopY, Stroke]
           @ concat (map (metalBrace leftBaseX leftBaseY leftTopY rightBaseX rightBaseY rightTopY
                            numBraces)
                         [1..numBraces])
           @ [SetStrokeStyle COLORS_metalDark, SetLineWidth 2.5,
              BeginPath, MoveTo leftBaseX leftTopY, LineTo rightBaseX rightTopY, Stroke,
              SetStrokeStyle COLORS_metalMain, SetLineWidth 2,
              BeginPath, MoveTo leftBaseX leftTopY, LineTo rightBaseX rightTopY, Stroke,
              SetFillStyle COLORS_metalDark,
              BeginPath, MoveTo leftBaseX leftBaseY,
              LineTo (leftBaseX - plateSize * 0.5) (leftBaseY + plateSize * 0.3),
              LineTo leftBaseX (leftBaseY + plateHeight),
              LineTo (leftBaseX + plateSize * 0.5) (leftBaseY + plateSize * 0.3),
              ClosePath, Fill,
              BeginPath, MoveTo rightBaseX rightBaseY,
              LineTo (rightBaseX - plateSize * 0.5) (rightBaseY + plateSize * 0.3),
              LineTo rightBaseX (rightBaseY + plateHeight),
              LineTo (rightBaseX + plateSize * 0.5) (rightBaseY + plateSize * 0.3),
              ClosePath, Fill,
              SetFillStyle COLORS_metalRivet,
              BeginPath, Arc leftBaseX leftTopY rivetSize 0 (pi * 2), Fill,
              BeginPath, Arc rightBaseX rightTopY rivetSize 0 (pi * 2), Fill])"

text \<open>\<^verbatim>\<open>drawSupport\<close> dispatches on the strut style.\<close>

definition drawSupport ::
  "real \<Rightarrow> real \<Rightarrow> real \<Rightarrow> point option \<Rightarrow> StrutStyle \<Rightarrow> canvas_op list" where
  "drawSupport x groundY height perp strutStyle =
     (if strutStyle = Wood then drawWoodSupport x groundY height perp
      else drawMetalSupport x groundY height perp)"

section \<open>Straight track\<close>

text \<open>
  The five anchors of a tile, as \<^verbatim>\<open>drawStraightTrack\<close> computes them from the tile
  origin and the height, and the choice of \<^verbatim>\<open>fromEdge\<close>, \<^verbatim>\<open>toEdge\<close> and the unit
  perpendicular \<^verbatim>\<open>(perpX, perpY)\<close> by the direction.
\<close>

record anchors =
  northEdge :: point
  eastEdge :: point
  southEdge :: point
  westEdge :: point
  center :: point

definition straightAnchors :: "real \<Rightarrow> real \<Rightarrow> real \<Rightarrow> anchors" where
  "straightAnchors startX startY height =
     (let w = TILE_WIDTH; h = TILE_HEIGHT; heightOffset = height * HEIGHT_UNIT in
      \<lparr>northEdge = \<lparr>px = startX + w * 0.25, py = startY + h * 0.25 - heightOffset\<rparr>,
       eastEdge = \<lparr>px = startX + w * 0.75, py = startY + h * 0.25 - heightOffset\<rparr>,
       southEdge = \<lparr>px = startX + w * 0.75, py = startY + h * 0.75 - heightOffset\<rparr>,
       westEdge = \<lparr>px = startX + w * 0.25, py = startY + h * 0.75 - heightOffset\<rparr>,
       center = \<lparr>px = startX + w / 2, py = startY + h / 2 - heightOffset\<rparr>\<rparr>)"

record segment =
  fromEdge :: point
  toEdge :: point
  perpX :: real
  perpY :: real

definition straightSegment :: "anchors \<Rightarrow> TrackDirection \<Rightarrow> segment" where
  "straightSegment a direction =
     (if direction = North \<or> direction = South
      then \<lparr>fromEdge = northEdge a, toEdge = southEdge a,
            perpX = (px (eastEdge a) - px (westEdge a))
                    / hypot (px (eastEdge a) - px (westEdge a)) (py (eastEdge a) - py (westEdge a)),
            perpY = (py (eastEdge a) - py (westEdge a))
                    / hypot (px (eastEdge a) - px (westEdge a)) (py (eastEdge a) - py (westEdge a))\<rparr>
      else \<lparr>fromEdge = eastEdge a, toEdge = westEdge a,
            perpX = (px (southEdge a) - px (northEdge a))
                    / hypot (px (southEdge a) - px (northEdge a)) (py (southEdge a) - py (northEdge a)),
            perpY = (py (southEdge a) - py (northEdge a))
                    / hypot (px (southEdge a) - px (northEdge a)) (py (southEdge a) - py (northEdge a))\<rparr>)"

text \<open>The body of the loop over the crossties, and the loop \<^verbatim>\<open>for (i = 0; i <= numTies; i++)\<close>.\<close>

definition straightTie :: "segment \<Rightarrow> int \<Rightarrow> int \<Rightarrow> canvas_op list" where
  "straightTie g numTies i =
     (let t = of_int i / of_int numTies;
          tieX = px (fromEdge g) + (px (toEdge g) - px (fromEdge g)) * t;
          tieY = py (fromEdge g) + (py (toEdge g) - py (fromEdge g)) * t
      in [BeginPath,
          MoveTo (tieX - perpX g * TIE_LENGTH / 2) (tieY - perpY g * TIE_LENGTH / 2),
          LineTo (tieX + perpX g * TIE_LENGTH / 2) (tieY + perpY g * TIE_LENGTH / 2),
          Stroke])"

definition straightTies :: "segment \<Rightarrow> int \<Rightarrow> canvas_op list" where
  "straightTies g numTies = concat (map (straightTie g numTies) [0..numTies])"

text \<open>
  \<^verbatim>\<open>drawStraightTrack\<close>. The parameters \<^verbatim>\<open>trackColor\<close> and \<^verbatim>\<open>strutStyle\<close> are
  explicit here; the source's defaults are \<^verbatim>\<open>COLORS.rail\<close> and \<^verbatim>\<open>'metal'\<close>.
  \<open>straightNumTies\<close> is the source's \<^verbatim>\<open>numTies\<close>.
\<close>

definition straightNumTies :: "segment \<Rightarrow> int" where
  "straightNumTies g =
     (let length = hypot (px (toEdge g) - px (fromEdge g)) (py (toEdge g) - py (fromEdge g))
      in max 3 \<lfloor>length / TIE_SPACING\<rfloor>)"

definition drawStraightTrack ::
  "real \<Rightarrow> real \<Rightarrow> TrackDirection \<Rightarrow> real \<Rightarrow> string \<Rightarrow> StrutStyle \<Rightarrow> canvas_op list" where
  "drawStraightTrack startX startY direction height trackColor strutStyle =
     (let heightOffset = height * HEIGHT_UNIT;
          a = straightAnchors startX startY height;
          g = straightSegment a direction;
          numTies = straightNumTies g;
          railOffset = TRACK_WIDTH / 2
      in (if height > 0
          then drawSupport (px (center a)) (py (center a) + heightOffset) height
                 (Some \<lparr>px = perpX g, py = perpY g\<rparr>) strutStyle
          else [])
         @ [SetStrokeStyle COLORS_tie, SetLineWidth 3, SetLineCap ''butt'']
         @ straightTies g numTies
         @ [SetStrokeStyle trackColor, SetLineWidth RAIL_WIDTH, SetLineCap ''round'',
            BeginPath,
            MoveTo (px (fromEdge g) - perpX g * railOffset) (py (fromEdge g) - perpY g * railOffset),
            LineTo (px (toEdge g) - perpX g * railOffset) (py (toEdge g) - perpY g * railOffset),
            Stroke,
            BeginPath,
            MoveTo (px (fromEdge g) + perpX g * railOffset) (py (fromEdge g) + perpY g * railOffset),
            LineTo (px (toEdge g) + perpX g * railOffset) (py (toEdge g) + perpY g * railOffset),
            Stroke])"

section \<open>Curved track\<close>

text \<open>
  The anchors as \<^verbatim>\<open>drawCurvedTrack\<close> computes them, and its choice of
  \<^verbatim>\<open>fromEdge\<close> and \<^verbatim>\<open>toEdge\<close> (first and second component) by the entry
  direction and the turn.
\<close>

definition curvedAnchors :: "real \<Rightarrow> real \<Rightarrow> real \<Rightarrow> anchors" where
  "curvedAnchors startX startY height =
     (let w = TILE_WIDTH; h = TILE_HEIGHT; heightOffset = height * HEIGHT_UNIT in
      \<lparr>northEdge = \<lparr>px = startX + w * 0.25, py = startY + h * 0.25 - heightOffset\<rparr>,
       eastEdge = \<lparr>px = startX + w * 0.75, py = startY + h * 0.25 - heightOffset\<rparr>,
       southEdge = \<lparr>px = startX + w * 0.75, py = startY + h * 0.75 - heightOffset\<rparr>,
       westEdge = \<lparr>px = startX + w * 0.25, py = startY + h * 0.75 - heightOffset\<rparr>,
       center = \<lparr>px = startX + w / 2, py = startY + h / 2 - heightOffset\<rparr>\<rparr>)"

definition curvedEdges :: "anchors \<Rightarrow> TrackDirection \<Rightarrow> bool \<Rightarrow> point \<times> point" where
  "curvedEdges a startDir turnRight =
     (if startDir = North then (northEdge a, if turnRight then eastEdge a else westEdge a)
      else if startDir = South then (southEdge a, if turnRight then westEdge a else eastEdge a)
      else if startDir = East then (eastEdge a, if turnRight then southEdge a else northEdge a)
      else (westEdge a, if turnRight then northEdge a else southEdge a))"

text \<open>
  The perpendicular at the parameter \<open>t\<close>, written inline in both loops of the source:
  \<^verbatim>\<open>len = Math.sqrt(tangent.x * tangent.x + tangent.y * tangent.y)\<close>,
  \<^verbatim>\<open>perpX = -tangent.y / len\<close>, \<^verbatim>\<open>perpY = tangent.x / len\<close>. The source has no
  test of \<^verbatim>\<open>len\<close>. When \<^verbatim>\<open>len\<close> is 0 the tangent is (0, 0), both quotients are
  \<^verbatim>\<open>0 / 0\<close> and the perpendicular is \<^verbatim>\<open>NaN\<close>: the value \<^term>\<open>None\<close>.
\<close>

definition curvePerp :: "point \<Rightarrow> point \<Rightarrow> point \<Rightarrow> real \<Rightarrow> point option" where
  "curvePerp from ctr to t =
     (let tangent = quadraticTangent from ctr to t;
          len = sqrt (px tangent * px tangent + py tangent * py tangent)
      in if len = 0 then None
         else Some \<lparr>px = - py tangent / len, py = px tangent / len\<rparr>)"

text \<open>
  The body of the loop over the crossties and the body of the inner loop over the rail
  points. A renderer that meets a \<^verbatim>\<open>NaN\<close> perpendicular is \<^term>\<open>None\<close> as a whole.
\<close>

definition curvedTie :: "point \<Rightarrow> point \<Rightarrow> point \<Rightarrow> int \<Rightarrow> int \<Rightarrow> canvas_op list option" where
  "curvedTie from ctr to numTies i =
     (let t = of_int i / of_int numTies;
          pt = quadraticPoint from ctr to t
      in case curvePerp from ctr to t of
           None \<Rightarrow> None
         | Some perp \<Rightarrow>
             Some [BeginPath,
                   MoveTo (px pt - px perp * TIE_LENGTH / 2) (py pt - py perp * TIE_LENGTH / 2),
                   LineTo (px pt + px perp * TIE_LENGTH / 2) (py pt + py perp * TIE_LENGTH / 2),
                   Stroke])"

definition curvedRailPoint ::
  "point \<Rightarrow> point \<Rightarrow> point \<Rightarrow> real \<Rightarrow> int \<Rightarrow> real \<Rightarrow> int \<Rightarrow> canvas_op option" where
  "curvedRailPoint from ctr to railOffset segments side i =
     (let t = of_int i / of_int segments;
          pt = quadraticPoint from ctr to t
      in case curvePerp from ctr to t of
           None \<Rightarrow> None
         | Some perp \<Rightarrow>
             (let rx = px pt + px perp * railOffset * side;
                  ry = py pt + py perp * railOffset * side
              in Some (if i = 0 then MoveTo rx ry else LineTo rx ry)))"

definition curvedRail ::
  "point \<Rightarrow> point \<Rightarrow> point \<Rightarrow> real \<Rightarrow> int \<Rightarrow> real \<Rightarrow> canvas_op list option" where
  "curvedRail from ctr to railOffset segments side =
     map_option (\<lambda>ops. [BeginPath] @ ops @ [Stroke])
       (those (map (curvedRailPoint from ctr to railOffset segments side) [0..segments]))"

text \<open>
  \<^verbatim>\<open>drawCurvedTrack\<close>. The support is drawn under the curve point at
  \<^verbatim>\<open>midT = 0.5\<close>, and its \<^verbatim>\<open>perp\<close> argument is \<^verbatim>\<open>undefined\<close>.
\<close>

definition drawCurvedTrack ::
  "real \<Rightarrow> real \<Rightarrow> TrackDirection \<Rightarrow> bool \<Rightarrow> real \<Rightarrow> string \<Rightarrow> StrutStyle
     \<Rightarrow> canvas_op list option" where
  "drawCurvedTrack startX startY startDir turnRight height trackColor strutStyle =
     (let heightOffset = height * HEIGHT_UNIT;
          a = curvedAnchors startX startY height;
          from = fst (curvedEdges a startDir turnRight);
          to = snd (curvedEdges a startDir turnRight);
          support =
            (if height > 0
             then
               let midT = 0.5;
                   curveMid = quadraticPoint from (center a) to midT
               in drawSupport (px curveMid) (py curveMid + heightOffset) height None strutStyle
             else []);
          numTies = 4;
          railOffset = TRACK_WIDTH / 2;
          segments = 16
      in case those (map (curvedTie from (center a) to numTies) [0..numTies]) of
           None \<Rightarrow> None
         | Some ties \<Rightarrow>
            (case curvedRail from (center a) to railOffset segments (- 1) of
               None \<Rightarrow> None
             | Some leftRail \<Rightarrow>
                (case curvedRail from (center a) to railOffset segments 1 of
                   None \<Rightarrow> None
                 | Some rightRail \<Rightarrow>
                     Some (support
                           @ [SetStrokeStyle COLORS_tie, SetLineWidth 3]
                           @ concat ties
                           @ [SetStrokeStyle trackColor, SetLineWidth RAIL_WIDTH,
                              SetLineCap ''round'']
                           @ leftRail @ rightRail))))"

section \<open>Double arithmetic\<close>





section \<open>Sloped track\<close>

text \<open>
  \<^verbatim>\<open>drawSlopeTrack\<close>: the anchors are taken at ground level, the two ends carry
  their own heights, and \<^verbatim>\<open>(groundPerpX, groundPerpY)\<close> (the fields \<open>perpX\<close> and
  \<open>perpY\<close> here) is the perpendicular in the ground plane.
\<close>

definition slopeAnchors :: "real \<Rightarrow> real \<Rightarrow> anchors" where
  "slopeAnchors startX startY =
     (let w = TILE_WIDTH; h = TILE_HEIGHT in
      \<lparr>northEdge = \<lparr>px = startX + w * 0.25, py = startY + h * 0.25\<rparr>,
       eastEdge = \<lparr>px = startX + w * 0.75, py = startY + h * 0.25\<rparr>,
       southEdge = \<lparr>px = startX + w * 0.75, py = startY + h * 0.75\<rparr>,
       westEdge = \<lparr>px = startX + w * 0.25, py = startY + h * 0.75\<rparr>,
       center = \<lparr>px = startX + w / 2, py = startY + h / 2\<rparr>\<rparr>)"

definition slopeSegment :: "anchors \<Rightarrow> TrackDirection \<Rightarrow> segment" where
  "slopeSegment a direction =
     (if direction = South
      then \<lparr>fromEdge = northEdge a, toEdge = southEdge a,
            perpX = (px (eastEdge a) - px (westEdge a))
                    / hypot (px (eastEdge a) - px (westEdge a)) (py (eastEdge a) - py (westEdge a)),
            perpY = (py (eastEdge a) - py (westEdge a))
                    / hypot (px (eastEdge a) - px (westEdge a)) (py (eastEdge a) - py (westEdge a))\<rparr>
      else if direction = North
      then \<lparr>fromEdge = southEdge a, toEdge = northEdge a,
            perpX = (px (eastEdge a) - px (westEdge a))
                    / hypot (px (eastEdge a) - px (westEdge a)) (py (eastEdge a) - py (westEdge a)),
            perpY = (py (eastEdge a) - py (westEdge a))
                    / hypot (px (eastEdge a) - px (westEdge a)) (py (eastEdge a) - py (westEdge a))\<rparr>
      else if direction = West
      then \<lparr>fromEdge = eastEdge a, toEdge = westEdge a,
            perpX = (px (southEdge a) - px (northEdge a))
                    / hypot (px (southEdge a) - px (northEdge a)) (py (southEdge a) - py (northEdge a)),
            perpY = (py (southEdge a) - py (northEdge a))
                    / hypot (px (southEdge a) - px (northEdge a)) (py (southEdge a) - py (northEdge a))\<rparr>
      else \<lparr>fromEdge = westEdge a, toEdge = eastEdge a,
            perpX = (px (southEdge a) - px (northEdge a))
                    / hypot (px (southEdge a) - px (northEdge a)) (py (southEdge a) - py (northEdge a)),
            perpY = (py (southEdge a) - py (northEdge a))
                    / hypot (px (southEdge a) - px (northEdge a)) (py (southEdge a) - py (northEdge a))\<rparr>)"

definition slopeTie :: "real \<Rightarrow> real \<Rightarrow> real \<Rightarrow> real \<Rightarrow> real \<Rightarrow> real \<Rightarrow> int \<Rightarrow> int \<Rightarrow> canvas_op list" where
  "slopeTie x1 y1 trackDirX trackDirY perpX' perpY' numTies i =
     (let t = of_int i / of_int numTies;
          tieX = x1 + trackDirX * t;
          tieY = y1 + trackDirY * t
      in [BeginPath,
          MoveTo (tieX - perpX' * TIE_LENGTH / 2) (tieY - perpY' * TIE_LENGTH / 2),
          LineTo (tieX + perpX' * TIE_LENGTH / 2) (tieY + perpY' * TIE_LENGTH / 2),
          Stroke])"

definition drawSlopeTrack ::
  "real \<Rightarrow> real \<Rightarrow> TrackDirection \<Rightarrow> real \<Rightarrow> real \<Rightarrow> string \<Rightarrow> StrutStyle \<Rightarrow> canvas_op list" where
  "drawSlopeTrack startX startY direction startHeight endHeight trackColor strutStyle =
     (let a = slopeAnchors startX startY;
          g = slopeSegment a direction;
          fromHeight = startHeight;
          toHeight = endHeight;
          fromHeightOffset = fromHeight * HEIGHT_UNIT;
          toHeightOffset = toHeight * HEIGHT_UNIT;
          x1 = px (fromEdge g);
          y1 = py (fromEdge g) - fromHeightOffset;
          x2 = px (toEdge g);
          y2 = py (toEdge g) - toHeightOffset;
          trackDirX = x2 - x1;
          trackDirY = y2 - y1;
          trackLen = hypot trackDirX trackDirY;
          numTies = max 3 \<lfloor>trackLen / TIE_SPACING\<rfloor>;
          railOffset = TRACK_WIDTH / 2
      in (if fromHeight > 0
          then drawSupport x1 (py (fromEdge g)) fromHeight
                 (Some \<lparr>px = perpX g, py = perpY g\<rparr>) strutStyle
          else [])
         @ (if toHeight > 0
            then drawSupport x2 (py (toEdge g)) toHeight
                   (Some \<lparr>px = perpX g, py = perpY g\<rparr>) strutStyle
            else [])
         @ [SetStrokeStyle COLORS_tie, SetLineWidth 3, SetLineCap ''butt'']
         @ concat (map (slopeTie x1 y1 trackDirX trackDirY (perpX g) (perpY g) numTies) [0..numTies])
         @ [SetStrokeStyle trackColor, SetLineWidth RAIL_WIDTH, SetLineCap ''round'',
            BeginPath,
            MoveTo (x1 - perpX g * railOffset) (y1 - perpY g * railOffset),
            LineTo (x2 - perpX g * railOffset) (y2 - perpY g * railOffset),
            Stroke,
            BeginPath,
            MoveTo (x1 + perpX g * railOffset) (y1 + perpY g * railOffset),
            LineTo (x2 + perpX g * railOffset) (y2 + perpY g * railOffset),
            Stroke])"

section \<open>Vertical loop\<close>

text \<open>
  The closure \<^verbatim>\<open>getLoopPoint\<close> of \<^verbatim>\<open>drawLoopTrack\<close>; the variables it captures
  (\<^verbatim>\<open>centerX\<close>, \<^verbatim>\<open>centerY\<close>, \<^verbatim>\<open>dir\<close>, \<^verbatim>\<open>loopRadius\<close>, \<^verbatim>\<open>railOffset\<close>) are
  its first arguments. \<^verbatim>\<open>Math.sin\<close>, \<^verbatim>\<open>Math.cos\<close> and \<^verbatim>\<open>Math.PI\<close> are the real
  sine, cosine and \<open>\<pi>\<close>.
\<close>

definition getLoopPoint ::
  "real \<Rightarrow> real \<Rightarrow> dirvec \<Rightarrow> real \<Rightarrow> real \<Rightarrow> real \<Rightarrow> real \<Rightarrow> point" where
  "getLoopPoint centerX centerY dir loopRadius railOffset angle railSide =
     (let forwardOffset = sin angle * loopRadius;
          heightOffset = (1 - cos angle) * loopRadius;
          baseX = centerX + dx dir * forwardOffset;
          baseY = centerY + dy dir * forwardOffset - heightOffset;
          perpX' = - dy dir;
          perpY' = dx dir
      in \<lparr>px = baseX + perpX' * railOffset * railSide,
          py = baseY + perpY' * railOffset * railSide\<rparr>)"

text \<open>The bodies of the three loops: braces of the column, crossties, rail points.\<close>

definition loopBrace ::
  "real \<Rightarrow> real \<Rightarrow> real \<Rightarrow> bool \<Rightarrow> string \<Rightarrow> real \<Rightarrow> real \<Rightarrow> int \<Rightarrow> int \<Rightarrow> canvas_op list" where
  "loopBrace centerX centerY loopRadius isWood accentColor supportWidth supportHeight numBraces i =
     (let braceY = centerY - (supportHeight * of_int i / (of_int numBraces + 1));
          braceWidth = loopRadius * (if isWood then 0.5 else 0.4)
      in [SetStrokeStyle accentColor, SetLineWidth (if isWood then 2 else 1.5),
          BeginPath, MoveTo (centerX - braceWidth) braceY, LineTo (centerX + braceWidth) braceY,
          Stroke]
         @ (if isWood \<and> i < numBraces
            then
              let nextBraceY = centerY - (supportHeight * (of_int i + 1) / (of_int numBraces + 1))
              in [SetStrokeStyle COLORS_woodAccent, SetLineWidth 1.5,
                  BeginPath, MoveTo (centerX - braceWidth) braceY,
                  LineTo (centerX - supportWidth / 2) nextBraceY, Stroke,
                  BeginPath, MoveTo (centerX - supportWidth / 2) braceY,
                  LineTo (centerX - braceWidth) nextBraceY, Stroke,
                  BeginPath, MoveTo (centerX + braceWidth) braceY,
                  LineTo (centerX + supportWidth / 2) nextBraceY, Stroke,
                  BeginPath, MoveTo (centerX + supportWidth / 2) braceY,
                  LineTo (centerX + braceWidth) nextBraceY, Stroke]
            else []))"

definition loopTie :: "real \<Rightarrow> real \<Rightarrow> dirvec \<Rightarrow> real \<Rightarrow> real \<Rightarrow> int \<Rightarrow> int \<Rightarrow> canvas_op list" where
  "loopTie centerX centerY dir loopRadius railOffset numSegments i =
     (let angle = (of_int i / of_int numSegments) * pi * 2;
          pt = getLoopPoint centerX centerY dir loopRadius railOffset angle 0;
          nextAngle = angle + 0.05;
          nextPt = getLoopPoint centerX centerY dir loopRadius railOffset nextAngle 0;
          tangentX = px nextPt - px pt;
          tangentY = py nextPt - py pt;
          tangentLen = hypot tangentX tangentY
      in if tangentLen > 0.001
         then
           let tieX = - tangentY / tangentLen;
               tieY = tangentX / tangentLen
           in [BeginPath,
               MoveTo (px pt - tieX * TIE_LENGTH * 0.4) (py pt - tieY * TIE_LENGTH * 0.4),
               LineTo (px pt + tieX * TIE_LENGTH * 0.4) (py pt + tieY * TIE_LENGTH * 0.4),
               Stroke]
         else [])"

definition loopRailPoint ::
  "real \<Rightarrow> real \<Rightarrow> dirvec \<Rightarrow> real \<Rightarrow> real \<Rightarrow> int \<Rightarrow> real \<Rightarrow> int \<Rightarrow> point" where
  "loopRailPoint centerX centerY dir loopRadius railOffset numSegments railSide i =
     (let angle = (of_int i / of_int numSegments) * pi * 2
      in getLoopPoint centerX centerY dir loopRadius railOffset angle railSide)"

definition loopRail ::
  "real \<Rightarrow> real \<Rightarrow> dirvec \<Rightarrow> real \<Rightarrow> real \<Rightarrow> int \<Rightarrow> real \<Rightarrow> canvas_op list" where
  "loopRail centerX centerY dir loopRadius railOffset numSegments railSide =
     [BeginPath]
     @ map (\<lambda>i. let pt = loopRailPoint centerX centerY dir loopRadius railOffset numSegments
                            railSide i
                 in if i = 0 then MoveTo (px pt) (py pt) else LineTo (px pt) (py pt))
           [0..numSegments]
     @ [ClosePath, Stroke]"

text \<open>\<^verbatim>\<open>drawLoopTrack\<close>.\<close>

definition drawLoopTrack ::
  "real \<Rightarrow> real \<Rightarrow> TrackDirection \<Rightarrow> real \<Rightarrow> string \<Rightarrow> StrutStyle \<Rightarrow> canvas_op list" where
  "drawLoopTrack startX startY direction loopHeight trackColor strutStyle =
     (let w = TILE_WIDTH;
          h = TILE_HEIGHT;
          centerX = startX + w / 2;
          centerY = startY + h / 2;
          loopRadius = max 28 (loopHeight * HEIGHT_UNIT * 0.4);
          numSegments = 32;
          railOffset = TRACK_WIDTH / 2;
          dir = DIRECTIONS direction;
          isWood = (strutStyle = Wood);
          mainColor = (if isWood then COLORS_woodMain else COLORS_metalMain);
          darkColor = (if isWood then COLORS_woodDark else COLORS_metalDark);
          lightColor = (if isWood then COLORS_woodLight else COLORS_metalLight);
          accentColor = (if isWood then COLORS_woodAccent else COLORS_metalMain);
          supportWidth = (if isWood then 5 else 4);
          supportHeight = loopRadius * 2 + 5;
          numBraces = (if isWood then 5 else 3)
      in [SetFillStyle mainColor, SetStrokeStyle lightColor, SetLineWidth 1,
          SetFillStyle darkColor,
          BeginPath,
          MoveTo (centerX - supportWidth / 2 + 0.5) (centerY + 0.5),
          LineTo (centerX - supportWidth / 2 + 0.5) (centerY - supportHeight + 0.5),
          LineTo (centerX + supportWidth / 2 + 0.5) (centerY - supportHeight + 0.5),
          LineTo (centerX + supportWidth / 2 + 0.5) (centerY + 0.5),
          ClosePath, Fill,
          SetFillStyle mainColor,
          BeginPath,
          MoveTo (centerX - supportWidth / 2) centerY,
          LineTo (centerX - supportWidth / 2) (centerY - supportHeight),
          LineTo (centerX + supportWidth / 2) (centerY - supportHeight),
          LineTo (centerX + supportWidth / 2) centerY,
          ClosePath, Fill,
          SetStrokeStyle lightColor, Stroke]
         @ concat (map (loopBrace centerX centerY loopRadius isWood accentColor supportWidth
                          supportHeight numBraces)
                       [1..numBraces])
         @ [SetStrokeStyle COLORS_tie, SetLineWidth 2]
         @ concat (map (loopTie centerX centerY dir loopRadius railOffset numSegments)
                       (filter even [0..numSegments - 1]))
         @ [SetStrokeStyle trackColor, SetLineWidth RAIL_WIDTH, SetLineCap ''round'']
         @ loopRail centerX centerY dir loopRadius railOffset numSegments (- 1)
         @ loopRail centerX centerY dir loopRadius railOffset numSegments 1)"

section \<open>Chain lift\<close>

text \<open>
  The remainder operator \<^verbatim>\<open>%\<close> of the source on numbers: the quotient is truncated
  towards zero, so the result has the sign of the dividend. It is used with the divisor
  \<^verbatim>\<open>linkSpacing = 4\<close> only.
\<close>

definition jsRem :: "real \<Rightarrow> real \<Rightarrow> real" where
  "jsRem a b = a - b * of_int (if 0 \<le> a / b then \<lfloor>a / b\<rfloor> else \<lceil>a / b\<rceil>)"

text \<open>
  The two ends \<^verbatim>\<open>(x1, y1)\<close> and \<^verbatim>\<open>(x2, y2)\<close> of the chain, the position of a link
  at the parameter \<open>t\<close>, the body of the loop over the links, and \<^verbatim>\<open>drawChainLift\<close>.
  The source's default for \<^verbatim>\<open>tickOffset\<close> is 0.
\<close>

definition chainStart :: "real \<Rightarrow> real \<Rightarrow> TrackDirection \<Rightarrow> real \<Rightarrow> point" where
  "chainStart startX startY direction startHeight =
     (let dir = DIRECTIONS direction;
          length = TILE_WIDTH * 0.7;
          centerX = startX + TILE_WIDTH / 2;
          centerY = startY + TILE_HEIGHT / 2;
          halfLen = length / 2
      in \<lparr>px = centerX - dx dir * halfLen,
          py = centerY - dy dir * halfLen - startHeight * HEIGHT_UNIT\<rparr>)"

definition chainEnd :: "real \<Rightarrow> real \<Rightarrow> TrackDirection \<Rightarrow> real \<Rightarrow> point" where
  "chainEnd startX startY direction endHeight =
     (let dir = DIRECTIONS direction;
          length = TILE_WIDTH * 0.7;
          centerX = startX + TILE_WIDTH / 2;
          centerY = startY + TILE_HEIGHT / 2;
          halfLen = length / 2
      in \<lparr>px = centerX + dx dir * halfLen,
          py = centerY + dy dir * halfLen - endHeight * HEIGHT_UNIT\<rparr>)"

definition linkAt :: "point \<Rightarrow> point \<Rightarrow> real \<Rightarrow> point" where
  "linkAt p1 p2 t =
     \<lparr>px = px p1 + (px p2 - px p1) * t, py = py p1 + (py p2 - py p1) * t\<rparr>"

definition chainLink :: "point \<Rightarrow> point \<Rightarrow> real \<Rightarrow> real \<Rightarrow> real \<Rightarrow> int \<Rightarrow> canvas_op list" where
  "chainLink p1 p2 len linkSpacing animOffset i =
     (let t = (of_int i * linkSpacing + animOffset) / len
      in if t > 1 then []
         else
           let link = linkAt p1 p2 t
           in [BeginPath, Arc (px link) (py link) 0.75 0 (pi * 2), Fill])"

definition drawChainLift ::
  "real \<Rightarrow> real \<Rightarrow> TrackDirection \<Rightarrow> real \<Rightarrow> real \<Rightarrow> real \<Rightarrow> canvas_op list" where
  "drawChainLift startX startY direction startHeight endHeight tickOffset =
     (let length = TILE_WIDTH * 0.7;
          p1 = chainStart startX startY direction startHeight;
          p2 = chainEnd startX startY direction endHeight;
          linkSpacing = 4;
          numLinks = \<lfloor>length / linkSpacing\<rfloor>;
          animOffset = jsRem tickOffset linkSpacing
      in [SetFillStyle ''#1f2937'']
         @ concat (map (chainLink p1 p2 length linkSpacing animOffset) [0..numLinks]))"

section \<open>Adjoining cells\<close>

text \<open>
  Modelled from the spec: the track graph, which places segments on grid cells and says
  which cell follows which, is not among these sources. The "next cell in direction \<open>d\<close>"
  is the cell whose tile shares the edge \<open>d\<close> of this one. By \<^verbatim>\<open>gridToScreen\<close> a step
  of \<^verbatim>\<open>gridX\<close> moves the tile origin by half a tile to the south-east and a step of
  \<^verbatim>\<open>gridY\<close> by half a tile to the south-west, in agreement with the signs of the
  vectors of \<^verbatim>\<open>DIRECTIONS\<close> (lemma \<open>neighbour_along_DIRECTIONS\<close> below).
\<close>

definition neighbour :: "TrackDirection \<Rightarrow> real \<times> real \<Rightarrow> real \<times> real" where
  "neighbour d c =
     (case d of
        North \<Rightarrow> (fst c - 1, snd c)
      | East \<Rightarrow> (fst c, snd c - 1)
      | South \<Rightarrow> (fst c + 1, snd c)
      | West \<Rightarrow> (fst c, snd c + 1))"

text \<open>
  Modelled from the spec: the edge by which a segment is entered from the cell before it is
  the edge opposite to the direction of travel.
\<close>

definition opposite :: "TrackDirection \<Rightarrow> TrackDirection" where
  "opposite d = (case d of North \<Rightarrow> South | East \<Rightarrow> West | South \<Rightarrow> North | West \<Rightarrow> East)"

text \<open>The edge midpoint of a tile on the side \<open>d\<close>, among the anchors a renderer computes.\<close>

definition edgeOf :: "anchors \<Rightarrow> TrackDirection \<Rightarrow> point" where
  "edgeOf a d =
     (case d of North \<Rightarrow> northEdge a | East \<Rightarrow> eastEdge a | South \<Rightarrow> southEdge a
      | West \<Rightarrow> westEdge a)"

section \<open>Reading the operations\<close>

text \<open>
  The stroke style and the path that a list of operations leaves behind, and the stroke
  styles that the support renderers use.
\<close>

fun styleAfter :: "string \<Rightarrow> canvas_op list \<Rightarrow> string" where
  "styleAfter st [] = st"
| "styleAfter st (SetStrokeStyle s # ops) = styleAfter s ops"
| "styleAfter st (_ # ops) = styleAfter st ops"

fun pathAfter :: "point list \<Rightarrow> canvas_op list \<Rightarrow> point list" where
  "pathAfter path [] = path"
| "pathAfter path (BeginPath # ops) = pathAfter [] ops"
| "pathAfter path (MoveTo a b # ops) = pathAfter (path @ [\<lparr>px = a, py = b\<rparr>]) ops"
| "pathAfter path (LineTo a b # ops) = pathAfter (path @ [\<lparr>px = a, py = b\<rparr>]) ops"
| "pathAfter path (_ # ops) = pathAfter path ops"

definition supportStyles :: "string set" where
  "supportStyles = {COLORS_woodDark, COLORS_woodMain, COLORS_woodLight, COLORS_woodAccent,
                    COLORS_metalDark, COLORS_metalMain, COLORS_metalLight}"

section \<open>Properties\<close>

subsection \<open>Strokes of a straight segment\<close>

lemma strokes_append:
  "strokes st path (xs @ ys) = strokes st path xs @ strokes (styleAfter st xs) (pathAfter path xs) ys"
  by (induction st path xs rule: strokes.induct) simp_all

lemma strokes_styles:
  "fst ` set (strokes st path ops) \<subseteq> insert st {s. SetStrokeStyle s \<in> set ops}"
  by (induction st path ops rule: strokes.induct) auto

lemma hypot_tile: "hypot 32 (96/5) = 32 / 5 * sqrt 34" "hypot 32 (- (96/5)) = 32 / 5 * sqrt 34"
  "hypot (-32) (96/5) = 32 / 5 * sqrt 34"
proof -
  have "sqrt (32 * 32 + 96/5 * (96/5)) = sqrt ((32/5)^2 * 34)"
    by (simp add: power2_eq_square)
  also have "\<dots> = 32 / 5 * sqrt 34"
    by (simp add: real_sqrt_mult del: real_sqrt_mult_self)
  finally have h: "sqrt (32 * 32 + 96/5 * (96/5)) = 32 / 5 * sqrt 34" .
  show "hypot 32 (96/5) = 32 / 5 * sqrt 34" "hypot 32 (- (96/5)) = 32 / 5 * sqrt 34"
  "hypot (-32) (96/5) = 32 / 5 * sqrt 34"
    using h by (simp_all add: hypot_def)
qed

lemma sqrt34_bounds: "5 < sqrt 34" "sqrt 34 < 6"
  by (rule real_less_rsqrt, simp) (rule real_less_lsqrt, simp_all)

lemma straightSegment_tile:
  "straightSegment (straightAnchors sx sy h) d =
     (if d = North \<or> d = South
      then \<lparr>fromEdge = \<lparr>px = sx + 16, py = sy + 48/5 - h * 20\<rparr>,
            toEdge = \<lparr>px = sx + 48, py = sy + 144/5 - h * 20\<rparr>,
            perpX = 5 / sqrt 34, perpY = - 3 / sqrt 34\<rparr>
      else \<lparr>fromEdge = \<lparr>px = sx + 48, py = sy + 48/5 - h * 20\<rparr>,
            toEdge = \<lparr>px = sx + 16, py = sy + 144/5 - h * 20\<rparr>,
            perpX = 5 / sqrt 34, perpY = 3 / sqrt 34\<rparr>)"
  by (simp add: straightSegment_def straightAnchors_def TILE_WIDTH_def TILE_HEIGHT_def
      HEIGHT_RATIO_def HEIGHT_UNIT_def hypot_tile Let_def)

lemma straightNumTies_tile:
  "straightNumTies (straightSegment (straightAnchors sx sy h) d) = 4"
proof -
  have "\<lfloor>32 / 5 * sqrt 34 / 8\<rfloor> = 4"
    using sqrt34_bounds by (intro floor_unique) simp_all
  then show ?thesis
    by (simp add: straightNumTies_def straightSegment_tile hypot_tile TIE_SPACING_def)
qed


lemma styleAfter_append: "styleAfter st (xs @ ys) = styleAfter (styleAfter st xs) ys"
  by (induction st xs rule: styleAfter.induct) simp_all

lemma straightTie_strokes:
  "strokes st path (straightTie g n i) = [(st, pathAfter [] (straightTie g n i))]"
  by (simp add: straightTie_def Let_def)

lemma straightTie_style: "styleAfter st (straightTie g n i) = st"
  by (simp add: straightTie_def Let_def)

lemma straightTies_style: "styleAfter st (concat (map (straightTie g n) js)) = st"
  by (induction js) (simp_all add: styleAfter_append straightTie_style)

lemma straightTies_strokes:
  "strokes st path (concat (map (straightTie g n) js)) =
     map (\<lambda>i. (st, pathAfter [] (straightTie g n i))) js"
proof (induction js arbitrary: path)
  case Nil
  show ?case by simp
next
  case (Cons j js)
  show ?case
    by (simp add: strokes_append straightTie_strokes straightTie_style Cons.IH)
qed


lemma drawSupport_styles:
  "SetStrokeStyle s \<in> set (drawSupport x0 gy h perp style) \<Longrightarrow> s \<in> supportStyles"
  by (auto simp: drawSupport_def drawWoodSupport_def drawMetalSupport_def woodSection_def
      metalBrace_def Let_def supportStyles_def split: if_splits)

lemma drawSupport_shape:
  "drawSupport x0 gy h perp style = [] \<or>
   (\<exists>s r. drawSupport x0 gy h perp style = SetStrokeStyle s # r)"
  by (simp add: drawSupport_def drawWoodSupport_def drawMetalSupport_def Let_def)

lemma drawSupport_strokes_styles:
  "fst ` set (strokes st path (drawSupport x0 gy h perp style)) \<subseteq> supportStyles"
proof -
  consider "drawSupport x0 gy h perp style = []"
    | s r where "drawSupport x0 gy h perp style = SetStrokeStyle s # r"
    using drawSupport_shape by blast
  then show ?thesis
  proof cases
    case 1
    then show ?thesis by simp
  next
    case 2
    have "fst ` set (strokes s path r) \<subseteq> insert s {s'. SetStrokeStyle s' \<in> set r}"
      by (rule strokes_styles)
    also have "\<dots> \<subseteq> {s'. SetStrokeStyle s' \<in> set (drawSupport x0 gy h perp style)}"
      using 2 by auto
    also have "\<dots> \<subseteq> supportStyles"
      using drawSupport_styles by blast
    finally show ?thesis using 2 by simp
  qed
qed


lemma drawStraightTrack_strokes:
  "strokes st path (drawStraightTrack sx sy d h c style) =
     (let a = straightAnchors sx sy h; g = straightSegment a d; n = straightNumTies g in
      strokes st path
        (if h > 0
         then drawSupport (px (center a)) (py (center a) + h * HEIGHT_UNIT) h
                (Some \<lparr>px = perpX g, py = perpY g\<rparr>) style
         else [])
      @ map (\<lambda>i. (COLORS_tie, pathAfter [] (straightTie g n i))) [0..n]
      @ [(c, [\<lparr>px = px (fromEdge g) - perpX g * (TRACK_WIDTH / 2),
               py = py (fromEdge g) - perpY g * (TRACK_WIDTH / 2)\<rparr>,
              \<lparr>px = px (toEdge g) - perpX g * (TRACK_WIDTH / 2),
               py = py (toEdge g) - perpY g * (TRACK_WIDTH / 2)\<rparr>]),
         (c, [\<lparr>px = px (fromEdge g) + perpX g * (TRACK_WIDTH / 2),
               py = py (fromEdge g) + perpY g * (TRACK_WIDTH / 2)\<rparr>,
              \<lparr>px = px (toEdge g) + perpX g * (TRACK_WIDTH / 2),
               py = py (toEdge g) + perpY g * (TRACK_WIDTH / 2)\<rparr>])])"
  unfolding drawStraightTrack_def Let_def straightTies_def
  by (simp add: strokes_append straightTies_strokes straightTies_style)

lemma COLORS_tie_not_support: "COLORS_tie \<notin> supportStyles"
  by (simp add: supportStyles_def COLORS_tie_def COLORS_woodDark_def COLORS_woodMain_def
      COLORS_woodLight_def COLORS_woodAccent_def COLORS_metalDark_def COLORS_metalMain_def
      COLORS_metalLight_def)

lemma filter_support_tie:
  "filter (\<lambda>s. fst s = COLORS_tie) (strokes st path (drawSupport x0 gy h perp style)) = []"
  using drawSupport_strokes_styles [of st path x0 gy h perp style] COLORS_tie_not_support
  by (auto simp: filter_empty_conv)

lemma default_straight_rails:
  "strokesIn COLORS_rail (drawStraightTrack 0 0 South 0 COLORS_rail Metal) =
     [[\<lparr>px = 16 - 20 / sqrt 34, py = 9.6 + 12 / sqrt 34\<rparr>,
       \<lparr>px = 48 - 20 / sqrt 34, py = 28.8 + 12 / sqrt 34\<rparr>],
      [\<lparr>px = 16 + 20 / sqrt 34, py = 9.6 - 12 / sqrt 34\<rparr>,
       \<lparr>px = 48 + 20 / sqrt 34, py = 28.8 - 12 / sqrt 34\<rparr>]]"
  by (simp add: strokesIn_def drawStraightTrack_strokes Let_def filter_map comp_def
      straightNumTies_tile straightSegment_tile TRACK_WIDTH_def COLORS_rail_def COLORS_tie_def)

subsection \<open>The tangent of a turn\<close>

lemma curvedEdges_tile:
  "curvedEdges (curvedAnchors sx sy h) d r =
     (if d = North
      then (\<lparr>px = sx + 16, py = sy + 48/5 - h * 20\<rparr>,
            if r then \<lparr>px = sx + 48, py = sy + 48/5 - h * 20\<rparr>
            else \<lparr>px = sx + 16, py = sy + 144/5 - h * 20\<rparr>)
      else if d = South
      then (\<lparr>px = sx + 48, py = sy + 144/5 - h * 20\<rparr>,
            if r then \<lparr>px = sx + 16, py = sy + 144/5 - h * 20\<rparr>
            else \<lparr>px = sx + 48, py = sy + 48/5 - h * 20\<rparr>)
      else if d = East
      then (\<lparr>px = sx + 48, py = sy + 48/5 - h * 20\<rparr>,
            if r then \<lparr>px = sx + 48, py = sy + 144/5 - h * 20\<rparr>
            else \<lparr>px = sx + 16, py = sy + 48/5 - h * 20\<rparr>)
      else (\<lparr>px = sx + 16, py = sy + 144/5 - h * 20\<rparr>,
            if r then \<lparr>px = sx + 16, py = sy + 48/5 - h * 20\<rparr>
            else \<lparr>px = sx + 48, py = sy + 144/5 - h * 20\<rparr>))"
  by (simp add: curvedEdges_def curvedAnchors_def TILE_WIDTH_def TILE_HEIGHT_def
      HEIGHT_RATIO_def HEIGHT_UNIT_def Let_def)

lemma curvedCenter_tile:
  "center (curvedAnchors sx sy h) = \<lparr>px = sx + 32, py = sy + 96/5 - h * 20\<rparr>"
  by (simp add: curvedAnchors_def TILE_WIDTH_def TILE_HEIGHT_def
      HEIGHT_RATIO_def HEIGHT_UNIT_def Let_def)

text \<open>One component of the tangent of a turn is constant.\<close>

lemma turn_tangent:
  "(let a = curvedAnchors sx sy h;
        tg = quadraticTangent (fst (curvedEdges a d r)) (center a) (snd (curvedEdges a d r)) t
    in \<bar>px tg\<bar> = 32 \<or> \<bar>py tg\<bar> = 96/5)"
  by (cases d; cases r)
     (simp_all add: curvedEdges_tile curvedCenter_tile quadraticTangent_def Let_def algebra_simps)

lemma turn_tangent_nz:
  "px (quadraticTangent (fst (curvedEdges (curvedAnchors sx sy h) d r))
         (center (curvedAnchors sx sy h)) (snd (curvedEdges (curvedAnchors sx sy h) d r)) t) \<noteq> 0
   \<or> py (quadraticTangent (fst (curvedEdges (curvedAnchors sx sy h) d r))
         (center (curvedAnchors sx sy h)) (snd (curvedEdges (curvedAnchors sx sy h) d r)) t) \<noteq> 0"
  using turn_tangent [of sx sy h d r t] by (auto simp: Let_def)

lemma curvePerp_unit:
  "curvePerp from ctr to t = Some p \<Longrightarrow> (px p)\<^sup>2 + (py p)\<^sup>2 = 1"
proof -
  assume a: "curvePerp from ctr to t = Some p"
  define tg where "tg = quadraticTangent from ctr to t"
  define len where "len = sqrt (px tg * px tg + py tg * py tg)"
  have nz: "len \<noteq> 0" and p: "p = \<lparr>px = - py tg / len, py = px tg / len\<rparr>"
    using a by (auto simp: curvePerp_def Let_def tg_def len_def split: if_splits)
  have "len\<^sup>2 = px tg * px tg + py tg * py tg"
    unfolding len_def by (simp add: real_sqrt_pow2_iff)
  then have "(px tg)\<^sup>2 + (py tg)\<^sup>2 = len\<^sup>2" by (simp add: power2_eq_square)
  then show ?thesis
    using nz by (simp add: p power_divide add_divide_distrib [symmetric])
qed

lemma turn_perp_defined:
  "\<exists>p. curvePerp (fst (curvedEdges (curvedAnchors sx sy h) d r))
          (center (curvedAnchors sx sy h)) (snd (curvedEdges (curvedAnchors sx sy h) d r)) t = Some p"
  using turn_tangent_nz [of sx sy h d r t] by (auto simp: curvePerp_def Let_def)

lemma those_map_Some:
  "(\<And>x. x \<in> set xs \<Longrightarrow> f x \<noteq> None) \<Longrightarrow> those (map f xs) = Some (map (\<lambda>x. the (f x)) xs)"
  by (induction xs) (auto split: option.splits)


lemma curvedTie_defined:
  "curvedTie (fst (curvedEdges (curvedAnchors sx sy h) d r)) (center (curvedAnchors sx sy h))
     (snd (curvedEdges (curvedAnchors sx sy h) d r)) n i \<noteq> None"
proof -
  obtain p where "curvePerp (fst (curvedEdges (curvedAnchors sx sy h) d r))
      (center (curvedAnchors sx sy h)) (snd (curvedEdges (curvedAnchors sx sy h) d r))
      (of_int i / of_int n) = Some p"
    using turn_perp_defined by blast
  then show ?thesis by (simp add: curvedTie_def Let_def)
qed

lemma curvedRailPoint_defined:
  "curvedRailPoint (fst (curvedEdges (curvedAnchors sx sy h) d r)) (center (curvedAnchors sx sy h))
     (snd (curvedEdges (curvedAnchors sx sy h) d r)) off n side i \<noteq> None"
proof -
  obtain p where "curvePerp (fst (curvedEdges (curvedAnchors sx sy h) d r))
      (center (curvedAnchors sx sy h)) (snd (curvedEdges (curvedAnchors sx sy h) d r))
      (of_int i / of_int n) = Some p"
    using turn_perp_defined by blast
  then show ?thesis by (simp add: curvedRailPoint_def Let_def)
qed

lemma curvedRail_defined:
  "curvedRail (fst (curvedEdges (curvedAnchors sx sy h) d r)) (center (curvedAnchors sx sy h))
     (snd (curvedEdges (curvedAnchors sx sy h) d r)) off n side \<noteq> None"
  by (simp add: curvedRail_def those_map_Some curvedRailPoint_defined)

lemma drawCurvedTrack_support:
  "\<exists>rest. drawCurvedTrack sx sy d r h c style =
     Some ((if h > 0
            then drawSupport
                   (px (quadraticPoint (fst (curvedEdges (curvedAnchors sx sy h) d r))
                          (center (curvedAnchors sx sy h))
                          (snd (curvedEdges (curvedAnchors sx sy h) d r)) 0.5))
                   (py (quadraticPoint (fst (curvedEdges (curvedAnchors sx sy h) d r))
                          (center (curvedAnchors sx sy h))
                          (snd (curvedEdges (curvedAnchors sx sy h) d r)) 0.5)
                    + h * HEIGHT_UNIT)
                   h None style
            else []) @ rest)"
proof -
  define fr where "fr = fst (curvedEdges (curvedAnchors sx sy h) d r)"
  define tt where "tt = snd (curvedEdges (curvedAnchors sx sy h) d r)"
  define ctr where "ctr = center (curvedAnchors sx sy h)"
  obtain ties where ties: "those (map (curvedTie fr ctr tt 4) [0..4]) = Some ties"
    unfolding fr_def tt_def ctr_def
    using those_map_Some [of "[0..4]" "curvedTie (fst (curvedEdges (curvedAnchors sx sy h) d r))
      (center (curvedAnchors sx sy h)) (snd (curvedEdges (curvedAnchors sx sy h) d r)) 4"]
      curvedTie_defined by blast
  obtain l where l: "curvedRail fr ctr tt (TRACK_WIDTH / 2) 16 (- 1) = Some l"
    unfolding fr_def tt_def ctr_def using curvedRail_defined by blast
  obtain rr where rr: "curvedRail fr ctr tt (TRACK_WIDTH / 2) 16 1 = Some rr"
    unfolding fr_def tt_def ctr_def using curvedRail_defined by blast
  show ?thesis
    unfolding drawCurvedTrack_def Let_def
    using ties l rr by (simp add: fr_def tt_def ctr_def)
qed

subsection \<open>Absorbed tile offsets\<close>











subsection \<open>Where the supports are drawn\<close>

lemma straightCenter_tile:
  "center (straightAnchors sx sy h) = \<lparr>px = sx + 32, py = sy + 96/5 - h * 20\<rparr>"
  by (simp add: straightAnchors_def TILE_WIDTH_def TILE_HEIGHT_def
      HEIGHT_RATIO_def HEIGHT_UNIT_def Let_def)

lemma straight_support_prefix:
  "0 < h \<Longrightarrow>
   prefix (drawSupport (px (center (straightAnchors sx sy 0))) (py (center (straightAnchors sx sy 0))) h
             (Some \<lparr>px = perpX (straightSegment (straightAnchors sx sy 0) d),
                    py = perpY (straightSegment (straightAnchors sx sy 0) d)\<rparr>) style)
          (drawStraightTrack sx sy d h c style)"
  unfolding drawStraightTrack_def Let_def
  by (simp add: straightCenter_tile straightSegment_tile HEIGHT_UNIT_def)

lemma curved_mid_ground:
  "quadraticPoint (fst (curvedEdges (curvedAnchors sx sy h) d r)) (center (curvedAnchors sx sy h))
     (snd (curvedEdges (curvedAnchors sx sy h) d r)) (1/2) =
   \<lparr>px = px (quadraticPoint (fst (curvedEdges (curvedAnchors sx sy 0) d r))
             (center (curvedAnchors sx sy 0)) (snd (curvedEdges (curvedAnchors sx sy 0) d r)) (1/2)),
    py = py (quadraticPoint (fst (curvedEdges (curvedAnchors sx sy 0) d r))
             (center (curvedAnchors sx sy 0)) (snd (curvedEdges (curvedAnchors sx sy 0) d r)) (1/2))
         - h * HEIGHT_UNIT\<rparr>"
  by (cases d; cases r)
     (simp_all add: curvedEdges_tile curvedCenter_tile quadraticPoint_def Let_def HEIGHT_UNIT_def
        field_simps)

lemma curved_support_prefix:
  "0 < h \<Longrightarrow>
   \<exists>rest. drawCurvedTrack sx sy d r h c style =
     Some (drawSupport
             (px (quadraticPoint (fst (curvedEdges (curvedAnchors sx sy 0) d r))
                   (center (curvedAnchors sx sy 0)) (snd (curvedEdges (curvedAnchors sx sy 0) d r)) (1/2)))
             (py (quadraticPoint (fst (curvedEdges (curvedAnchors sx sy 0) d r))
                   (center (curvedAnchors sx sy 0)) (snd (curvedEdges (curvedAnchors sx sy 0) d r)) (1/2)))
             h None style @ rest)"
  using drawCurvedTrack_support [of sx sy d r h c style]
  by (simp add: curved_mid_ground [of sx sy h d r])

lemma drawSupport_default_perp:
  "drawSupport x0 gy h None style = drawSupport x0 gy h (Some \<lparr>px = 1, py = 0\<rparr>) style"
  by (simp only: drawSupport_def drawWoodSupport_def drawMetalSupport_def option.case
      point.select_convs)

lemma slope_support:
  "\<exists>rest. drawSlopeTrack sx sy d sh eh c style =
     (if sh > 0
      then drawSupport (px (fromEdge (slopeSegment (slopeAnchors sx sy) d)))
             (py (fromEdge (slopeSegment (slopeAnchors sx sy) d))) sh
             (Some \<lparr>px = perpX (slopeSegment (slopeAnchors sx sy) d),
                    py = perpY (slopeSegment (slopeAnchors sx sy) d)\<rparr>) style
      else [])
     @ (if eh > 0
        then drawSupport (px (toEdge (slopeSegment (slopeAnchors sx sy) d)))
               (py (toEdge (slopeSegment (slopeAnchors sx sy) d))) eh
               (Some \<lparr>px = perpX (slopeSegment (slopeAnchors sx sy) d),
                      py = perpY (slopeSegment (slopeAnchors sx sy) d)\<rparr>) style
        else [])
     @ [SetStrokeStyle COLORS_tie, SetLineWidth 3, SetLineCap ''butt'']
     @ rest"
  unfolding drawSlopeTrack_def Let_def by (rule exI) (rule refl)

lemma slopeSegment_south:
  "slopeSegment (slopeAnchors 0 0) South =
     \<lparr>fromEdge = \<lparr>px = 16, py = 9.6\<rparr>, toEdge = \<lparr>px = 48, py = 28.8\<rparr>,
      perpX = 5 / sqrt 34, perpY = - 3 / sqrt 34\<rparr>"
  by (simp add: slopeSegment_def slopeAnchors_def TILE_WIDTH_def TILE_HEIGHT_def
      HEIGHT_RATIO_def Let_def hypot_tile)

lemma metal_support_nth4:
  "drawSupport x0 gy 1 perp Metal ! 4 =
     MoveTo (x0 - (case perp of None \<Rightarrow> 1 | Some p \<Rightarrow> px p) * 5 + 0.5)
            (gy - (case perp of None \<Rightarrow> 0 | Some p \<Rightarrow> py p) * 5 + 0.5)"
  by (simp add: drawSupport_def drawMetalSupport_def Let_def)

lemma metal_support_length: "4 < length (drawSupport x0 gy 1 perp Metal)"
  by (simp add: drawSupport_def drawMetalSupport_def Let_def)

lemma curved_mid_example:
  "quadraticPoint (fst (curvedEdges (curvedAnchors 0 0 0) North True))
     (center (curvedAnchors 0 0 0)) (snd (curvedEdges (curvedAnchors 0 0 0) North True)) (1/2)
   = \<lparr>px = 32, py = 14.4\<rparr>"
  by (simp add: curvedEdges_tile curvedCenter_tile quadraticPoint_def Let_def)

lemma curved_perp_example:
  "curvePerp (fst (curvedEdges (curvedAnchors 0 0 0) North True))
     (center (curvedAnchors 0 0 0)) (snd (curvedEdges (curvedAnchors 0 0 0) North True)) (1/2)
   = Some \<lparr>px = 0, py = 1\<rparr>"
  by (simp add: curvedEdges_tile curvedCenter_tile curvePerp_def quadraticTangent_def Let_def)

subsection \<open>Shared tile edges\<close>

lemma neighbour_along_DIRECTIONS:
  "gridToScreen (fst (neighbour d (gx, gy))) (snd (neighbour d (gx, gy))) =
     \<lparr>px = px (gridToScreen gx gy) + sgn (dx (DIRECTIONS d)) * (TILE_WIDTH / 2),
      py = py (gridToScreen gx gy) + sgn (dy (DIRECTIONS d)) * (TILE_HEIGHT / 2)\<rparr>"
  by (cases d) (simp_all add: neighbour_def gridToScreen_def field_simps)

lemma anchors_agree:
  "curvedAnchors sx sy h = straightAnchors sx sy h"
  by (simp add: curvedAnchors_def straightAnchors_def)

lemma edge_shared:
  "edgeOf (straightAnchors (px (gridToScreen gx gy)) (py (gridToScreen gx gy)) h) d =
   edgeOf (straightAnchors (px (gridToScreen (fst (neighbour d (gx, gy))) (snd (neighbour d (gx, gy)))))
                           (py (gridToScreen (fst (neighbour d (gx, gy))) (snd (neighbour d (gx, gy))))) h)
          (opposite d)"
  by (cases d)
     (simp_all add: edgeOf_def opposite_def neighbour_def gridToScreen_def straightAnchors_def
        TILE_WIDTH_def TILE_HEIGHT_def HEIGHT_RATIO_def Let_def field_simps)

lemma straight_end_on_side:
  "(if d = North \<or> d = East then fromEdge (straightSegment a d) else toEdge (straightSegment a d))
     = edgeOf a d"
  by (cases d) (simp_all add: straightSegment_def edgeOf_def)

lemma curved_entry: "fst (curvedEdges a d r) = edgeOf a d"
  by (cases d) (simp_all add: curvedEdges_def edgeOf_def)

lemma slope_ends:
  "fromEdge (slopeSegment a d) = edgeOf a (opposite d)" "toEdge (slopeSegment a d) = edgeOf a d"
  by (cases d; simp add: slopeSegment_def edgeOf_def opposite_def)+

lemma slope_edge_lifted:
  "\<lparr>px = px (edgeOf (slopeAnchors sx sy) d),
    py = py (edgeOf (slopeAnchors sx sy) d) - h * HEIGHT_UNIT\<rparr>
   = edgeOf (straightAnchors sx sy h) d"
  by (cases d) (simp_all add: edgeOf_def slopeAnchors_def straightAnchors_def Let_def)

subsection \<open>Strokes of the loop\<close>

lemma loopRail_points_strokes:
  "strokes st path
     (map (\<lambda>i. let pt = f i in if i = 0 then MoveTo (px pt) (py pt) else LineTo (px pt) (py pt)) js
      @ [ClosePath, Stroke]) = [(st, path @ map f js)]"
  by (induction js arbitrary: path) (simp_all add: Let_def)

lemma loopRail_strokes:
  "strokes st path (loopRail cx cy dir rad off n side) =
     [(st, map (loopRailPoint cx cy dir rad off n side) [0..n])]"
  unfolding loopRail_def
  by (simp add: loopRail_points_strokes)

lemma loopRail_style: "styleAfter st (loopRail cx cy dir rad off n side) = st"
proof -
  have "styleAfter st (map (\<lambda>i. let pt = f i in if i = 0 then MoveTo (px pt) (py pt)
      else LineTo (px pt) (py pt)) js @ [ClosePath, Stroke]) = st" for f :: "int \<Rightarrow> point" and js
    by (induction js) (simp_all add: Let_def)
  then show ?thesis
    unfolding loopRail_def by simp
qed

lemma ex_prefix4: "\<exists>pre. a @ b @ c @ d @ rest = pre @ rest"
  by (metis append_assoc)

lemma drawLoopTrack_rails_last:
  "\<exists>pre. drawLoopTrack sx sy d lh c style =
     pre @ [SetStrokeStyle c, SetLineWidth RAIL_WIDTH, SetLineCap ''round'']
         @ loopRail (sx + TILE_WIDTH / 2) (sy + TILE_HEIGHT / 2) (DIRECTIONS d)
             (max 28 (lh * HEIGHT_UNIT * 0.4)) (TRACK_WIDTH / 2) 32 (- 1)
         @ loopRail (sx + TILE_WIDTH / 2) (sy + TILE_HEIGHT / 2) (DIRECTIONS d)
             (max 28 (lh * HEIGHT_UNIT * 0.4)) (TRACK_WIDTH / 2) 32 1"
  unfolding drawLoopTrack_def Let_def by (rule ex_prefix4)

lemma drawLoopTrack_strokes:
  "\<exists>pre. strokes st path (drawLoopTrack sx sy d lh c style) =
     pre @ [(c, map (loopRailPoint (sx + TILE_WIDTH / 2) (sy + TILE_HEIGHT / 2) (DIRECTIONS d)
                       (max 28 (lh * HEIGHT_UNIT * 0.4)) (TRACK_WIDTH / 2) 32 (- 1)) [0..32]),
            (c, map (loopRailPoint (sx + TILE_WIDTH / 2) (sy + TILE_HEIGHT / 2) (DIRECTIONS d)
                       (max 28 (lh * HEIGHT_UNIT * 0.4)) (TRACK_WIDTH / 2) 32 1) [0..32])]"
proof -
  obtain pre where "drawLoopTrack sx sy d lh c style =
     pre @ [SetStrokeStyle c, SetLineWidth RAIL_WIDTH, SetLineCap ''round'']
         @ loopRail (sx + TILE_WIDTH / 2) (sy + TILE_HEIGHT / 2) (DIRECTIONS d)
             (max 28 (lh * HEIGHT_UNIT * 0.4)) (TRACK_WIDTH / 2) 32 (- 1)
         @ loopRail (sx + TILE_WIDTH / 2) (sy + TILE_HEIGHT / 2) (DIRECTIONS d)
             (max 28 (lh * HEIGHT_UNIT * 0.4)) (TRACK_WIDTH / 2) 32 1"
    using drawLoopTrack_rails_last by blast
  then have "strokes st path (drawLoopTrack sx sy d lh c style) =
     strokes st path pre @
       [(c, map (loopRailPoint (sx + TILE_WIDTH / 2) (sy + TILE_HEIGHT / 2) (DIRECTIONS d)
                       (max 28 (lh * HEIGHT_UNIT * 0.4)) (TRACK_WIDTH / 2) 32 (- 1)) [0..32]),
            (c, map (loopRailPoint (sx + TILE_WIDTH / 2) (sy + TILE_HEIGHT / 2) (DIRECTIONS d)
                       (max 28 (lh * HEIGHT_UNIT * 0.4)) (TRACK_WIDTH / 2) 32 1) [0..32])]"
    by (simp only: strokes_append strokes.simps styleAfter.simps pathAfter.simps
        loopRail_strokes loopRail_style append.simps)
  then show ?thesis by blast
qed

lemma loopRailPoint_closed:
  "loopRailPoint cx cy dir rad off 32 side 32 = loopRailPoint cx cy dir rad off 32 side 0"
  by (simp add: loopRailPoint_def getLoopPoint_def Let_def mult.commute)

lemma hd_last_upto32: "hd (map f [0..32::int]) = f 0" "last (map f [0..32::int]) = f 32"
proof -
  have "[0..32::int] = 0 # [1..32]" by (simp add: upto_rec1)
  then show "hd (map f [0..32::int]) = f 0" by simp
  have "[0..32::int] = [0..31] @ [32]" by (simp add: upto_rec2)
  then show "last (map f [0..32::int]) = f 32" by simp
qed

subsection \<open>The links of the chain\<close>

lemma jsRem_nonneg_arg: "0 \<le> a \<Longrightarrow> jsRem a 4 = a - 4 * of_int \<lfloor>a / 4\<rfloor>"
  by (simp add: jsRem_def)

lemma jsRem_nonneg: "0 \<le> a \<Longrightarrow> 0 \<le> jsRem a 4"
proof -
  assume a: "0 \<le> a"
  have "of_int \<lfloor>a / 4\<rfloor> \<le> a / 4" by (rule of_int_floor_le)
  then show ?thesis using a by (simp add: jsRem_nonneg_arg)
qed

lemma jsRem_shift:
  "0 \<le> a \<Longrightarrow> 0 \<le> a + of_int k * 4 \<Longrightarrow> jsRem (a + of_int k * 4) 4 = jsRem a 4"
proof -
  have q: "(a + of_int k * 4) / 4 = a / 4 + of_int k" by simp
  assume "0 \<le> a" "0 \<le> a + of_int k * 4"
  then show ?thesis
    by (simp only: jsRem_nonneg_arg q floor_add_int) simp
qed

lemma arcCentres_append: "arcCentres (xs @ ys) = arcCentres xs @ arcCentres ys"
  by (induction xs rule: arcCentres.induct) simp_all

lemma arcCentres_concat: "arcCentres (concat xss) = concat (map arcCentres xss)"
  by (induction xss) (simp_all add: arcCentres_append)

lemma arcCentres_chainLink:
  "arcCentres (chainLink p1 p2 len sp off i) =
     (if (of_int i * sp + off) / len > 1 then []
      else [linkAt p1 p2 ((of_int i * sp + off) / len)])"
  by (simp add: chainLink_def Let_def)

lemma chain_numLinks: "\<lfloor>TILE_WIDTH * 0.7 / 4\<rfloor> = 11"
  by (simp add: TILE_WIDTH_def)

lemma arcCentres_drawChainLift:
  "arcCentres (drawChainLift sx sy d sh eh tick) =
     concat (map (\<lambda>i. if (of_int i * 4 + jsRem tick 4) / (TILE_WIDTH * 0.7) > 1 then []
                       else [linkAt (chainStart sx sy d sh) (chainEnd sx sy d eh)
                               ((of_int i * 4 + jsRem tick 4) / (TILE_WIDTH * 0.7))])
                 [0..11])"
  unfolding drawChainLift_def Let_def
  by (simp add: arcCentres_concat arcCentres_chainLink comp_def TILE_WIDTH_def cong: if_cong)

lemma chain_link_params:
  "p \<in> set (arcCentres (drawChainLift sx sy d sh eh tickOffset)) \<Longrightarrow>
   \<exists>i. 0 \<le> i \<and> i \<le> 11 \<and>
       (of_int i * 4 + jsRem tickOffset 4) / (TILE_WIDTH * 0.7) \<le> 1 \<and>
       p = linkAt (chainStart sx sy d sh) (chainEnd sx sy d eh)
             ((of_int i * 4 + jsRem tickOffset 4) / (TILE_WIDTH * 0.7))"
  unfolding arcCentres_drawChainLift by (auto split: if_splits simp: not_less)

lemma chain_link_mem:
  "0 \<le> i \<Longrightarrow> i \<le> 11 \<Longrightarrow>
   (of_int i * 4 + jsRem tickOffset 4) / (TILE_WIDTH * 0.7) \<le> 1 \<Longrightarrow>
   linkAt (chainStart sx sy d sh) (chainEnd sx sy d eh)
     ((of_int i * 4 + jsRem tickOffset 4) / (TILE_WIDTH * 0.7))
   \<in> set (arcCentres (drawChainLift sx sy d sh eh tickOffset))"
  unfolding arcCentres_drawChainLift by (auto simp: not_less intro!: bexI [of _ i])

lemma linkAt_inj:
  "px p1 \<noteq> px p2 \<Longrightarrow> linkAt p1 p2 t = linkAt p1 p2 t' \<Longrightarrow> t = t'"
  by (simp add: linkAt_def)

lemma jsRem_examples: "jsRem 2 4 = 2" "jsRem (- 2) 4 = - 2" "jsRem 0 4 = 0"
proof -
  have "\<lceil>- (1 / 2) :: real\<rceil> = 0" by (rule ceiling_unique) simp_all
  then show "jsRem (- 2) 4 = - 2" by (simp add: jsRem_def)
  show "jsRem 2 4 = 2" "jsRem 0 4 = 0" by (simp_all add: jsRem_def)
qed

subsection \<open>The claims\<close>

text \<open>
  C7. Quadratic curve endpoint exactness: for all control points, the quadratic point
  formula at \<open>t = 0\<close> is \<open>from\<close> and at \<open>t = 1\<close> is \<open>to\<close>.
\<close>

theorem quadraticPoint_endpoints:
  "quadraticPoint from ctr to 0 = from \<and> quadraticPoint from ctr to 1 = to"
  by (simp add: quadraticPoint_def)

text \<open>
  C4 (amended). For every straight segment, the crosstie loop of \<^verbatim>\<open>drawStraightTrack\<close>
  runs from 0 to \<^verbatim>\<open>numTies\<close> inclusive, so the number of crosstie strokes (the strokes
  in the tie colour, when the track colour is another one) is
  \<open>max 3 \<lfloor>segmentLength / TIE_SPACING\<rfloor> + 1\<close>: one more than the claim says.
\<close>

theorem straight_tie_count:
  "trackColor \<noteq> COLORS_tie \<Longrightarrow>
   length (strokesIn COLORS_tie (drawStraightTrack sx sy d h trackColor style)) =
     nat (straightNumTies (straightSegment (straightAnchors sx sy h) d)) + 1"
  by (simp add: strokesIn_def drawStraightTrack_strokes Let_def filter_support_tie
      filter_map comp_def straightNumTies_tile)

theorem straight_tie_count_witness:
  "COLORS_rail \<noteq> COLORS_tie \<and>
   length (strokesIn COLORS_tie (drawStraightTrack 0 0 South 0 COLORS_rail Metal)) = 5"
  using straight_tie_count [of COLORS_rail 0 0 South 0 Metal]
  by (simp add: straightNumTies_tile COLORS_rail_def COLORS_tie_def)

text \<open>
  The claim as stated fails: at the origin, direction south, height 0, five crossties are
  stroked, and \<open>max 3 \<lfloor>segmentLength / TIE_SPACING\<rfloor>\<close> is four.
\<close>

theorem straight_tie_count_counterexample:
  "length (strokesIn COLORS_tie (drawStraightTrack 0 0 South 0 COLORS_rail Metal)) \<noteq>
     nat (max 3 \<lfloor>hypot (px (toEdge (straightSegment (straightAnchors 0 0 0) South))
                       - px (fromEdge (straightSegment (straightAnchors 0 0 0) South)))
                      (py (toEdge (straightSegment (straightAnchors 0 0 0) South))
                       - py (fromEdge (straightSegment (straightAnchors 0 0 0) South)))
                / TIE_SPACING\<rfloor>)"
proof -
  have n: "straightNumTies (straightSegment (straightAnchors 0 0 0) South) = 4"
    by (rule straightNumTies_tile)
  have "length (strokesIn COLORS_tie (drawStraightTrack 0 0 South 0 COLORS_rail Metal)) = 5"
    by (simp add: strokesIn_def drawStraightTrack_strokes Let_def filter_map comp_def n
        COLORS_rail_def COLORS_tie_def)
  moreover have "nat (max 3 \<lfloor>hypot (px (toEdge (straightSegment (straightAnchors 0 0 0) South))
                       - px (fromEdge (straightSegment (straightAnchors 0 0 0) South)))
                      (py (toEdge (straightSegment (straightAnchors 0 0 0) South))
                       - py (fromEdge (straightSegment (straightAnchors 0 0 0) South)))
                / TIE_SPACING\<rfloor>) = 4"
    using n by (simp add: straightNumTies_def Let_def)
  ultimately show ?thesis by simp
qed

text \<open>
  C2 (amended). For \<^verbatim>\<open>drawStraightTrack\<close> with origin (0, 0), direction south, height 0,
  default colour and style, the segment runs between the north edge midpoint (16, 9.6) and
  the south edge midpoint (48, 28.8), the unit perpendicular (eastEdge - westEdge,
  normalised) is \<open>(5 / sqrt 34, - 3 / sqrt 34)\<close>, and the left rail, the first of the two
  rail strokes, runs from \<open>(16 - 20 / sqrt 34, 9.6 + 12 / sqrt 34)\<close> to
  \<open>(48 - 20 / sqrt 34, 28.8 + 12 / sqrt 34)\<close>: the two midpoints moved by the track
  half-width 4 against the perpendicular.
\<close>

theorem straight_default_left_rail:
  "fromEdge (straightSegment (straightAnchors 0 0 0) South) = \<lparr>px = 16, py = 9.6\<rparr> \<and>
   toEdge (straightSegment (straightAnchors 0 0 0) South) = \<lparr>px = 48, py = 28.8\<rparr> \<and>
   perpX (straightSegment (straightAnchors 0 0 0) South) = 5 / sqrt 34 \<and>
   perpY (straightSegment (straightAnchors 0 0 0) South) = - 3 / sqrt 34 \<and>
   hd (strokesIn COLORS_rail (drawStraightTrack 0 0 South 0 COLORS_rail Metal)) =
     [\<lparr>px = 16 - 4 * (5 / sqrt 34), py = 9.6 - 4 * (- 3 / sqrt 34)\<rparr>,
      \<lparr>px = 48 - 4 * (5 / sqrt 34), py = 28.8 - 4 * (- 3 / sqrt 34)\<rparr>]"
  by (simp add: default_straight_rails straightSegment_tile)

text \<open>
  The claim as stated fails: neither rail stroke runs from (20, 13.6) to (52, 28.4).
\<close>

theorem straight_default_left_rail_counterexample:
  "[\<lparr>px = 20, py = 13.6\<rparr>, \<lparr>px = 52, py = 28.4\<rparr>]
     \<notin> set (strokesIn COLORS_rail (drawStraightTrack 0 0 South 0 COLORS_rail Metal))"
proof -
  have "0 < 20 / sqrt 34" by simp
  then have "16 - 20 / sqrt 34 \<noteq> 20" by linarith
  moreover have "20 / sqrt 34 < 4"
    using sqrt34_bounds by (simp add: field_simps)
  then have "16 + 20 / sqrt 34 \<noteq> 20" by linarith
  ultimately show ?thesis
    by (simp add: default_straight_rails)
qed

text \<open>
  C6. Tangent non-degeneracy: for every turn segment, that is for the control points that
  \<^verbatim>\<open>drawCurvedTrack\<close> looks up for any origin, entry direction, turn and height, the
  three control points are pairwise distinct, and the perpendicular computed at any
  parameter \<open>t\<close>, so at every sampled one, is defined and has unit length.
\<close>

theorem turn_perp_unit:
  "(let a = curvedAnchors sx sy h;
        from = fst (curvedEdges a d r);
        to = snd (curvedEdges a d r)
    in from \<noteq> to \<and> center a \<noteq> from \<and> center a \<noteq> to \<and>
       (\<exists>p. curvePerp from (center a) to t = Some p \<and> (px p)\<^sup>2 + (py p)\<^sup>2 = 1))"
proof -
  have "fst (curvedEdges (curvedAnchors sx sy h) d r) \<noteq> snd (curvedEdges (curvedAnchors sx sy h) d r)"
    by (simp add: curvedEdges_tile)
  moreover have "center (curvedAnchors sx sy h) \<noteq> fst (curvedEdges (curvedAnchors sx sy h) d r)"
    by (simp add: curvedEdges_tile curvedCenter_tile)
  moreover have "center (curvedAnchors sx sy h) \<noteq> snd (curvedEdges (curvedAnchors sx sy h) d r)"
    by (simp add: curvedEdges_tile curvedCenter_tile)
  moreover obtain p where p: "curvePerp (fst (curvedEdges (curvedAnchors sx sy h) d r))
      (center (curvedAnchors sx sy h)) (snd (curvedEdges (curvedAnchors sx sy h) d r)) t = Some p"
    using turn_perp_defined by blast
  moreover have "(px p)\<^sup>2 + (py p)\<^sup>2 = 1"
    using p by (rule curvePerp_unit)
  ultimately show ?thesis by (simp add: Let_def)
qed


text \<open>
  C5 (amended).
  \<^item> For an elevated straight segment (height \<open>h > 0\<close>), \<^verbatim>\<open>drawStraightTrack\<close> first
    draws a support at the ground point under the tile centre, the midpoint of its path,
    and passes the unit perpendicular of the ground plane as the lean direction.
  \<^item> For an elevated turn (height \<open>h > 0\<close>), \<^verbatim>\<open>drawCurvedTrack\<close> first draws a support
    at the ground point under the curve point at \<open>t = 1/2\<close>, and passes no perpendicular,
    so that the support uses its default direction (1, 0).
  \<^item> For a slope with start height \<open>sh\<close> and end height \<open>eh\<close>, \<^verbatim>\<open>drawSlopeTrack\<close>
    draws a support under its entry anchor exactly when \<open>sh > 0\<close>, then a support under
    its exit anchor exactly when \<open>eh > 0\<close>, each with the perpendicular of the ground
    plane, and then starts the crossties.
\<close>

theorem support_delegation:
  "(0 < h \<longrightarrow>
      prefix (drawSupport (px (center (straightAnchors sx sy 0))) (py (center (straightAnchors sx sy 0))) h
                (Some \<lparr>px = perpX (straightSegment (straightAnchors sx sy 0) d),
                       py = perpY (straightSegment (straightAnchors sx sy 0) d)\<rparr>) style)
             (drawStraightTrack sx sy d h c style))
   \<and> (0 < h \<longrightarrow>
        (\<exists>rest. drawCurvedTrack sx sy d r h c style =
           Some (drawSupport
                   (px (quadraticPoint (fst (curvedEdges (curvedAnchors sx sy 0) d r))
                          (center (curvedAnchors sx sy 0))
                          (snd (curvedEdges (curvedAnchors sx sy 0) d r)) (1/2)))
                   (py (quadraticPoint (fst (curvedEdges (curvedAnchors sx sy 0) d r))
                          (center (curvedAnchors sx sy 0))
                          (snd (curvedEdges (curvedAnchors sx sy 0) d r)) (1/2)))
                   h None style @ rest)))
   \<and> drawSupport x0 gy h None style = drawSupport x0 gy h (Some \<lparr>px = 1, py = 0\<rparr>) style
   \<and> (\<exists>rest. drawSlopeTrack sx sy d sh eh c style =
         (if sh > 0
          then drawSupport (px (fromEdge (slopeSegment (slopeAnchors sx sy) d)))
                 (py (fromEdge (slopeSegment (slopeAnchors sx sy) d))) sh
                 (Some \<lparr>px = perpX (slopeSegment (slopeAnchors sx sy) d),
                        py = perpY (slopeSegment (slopeAnchors sx sy) d)\<rparr>) style
          else [])
         @ (if eh > 0
            then drawSupport (px (toEdge (slopeSegment (slopeAnchors sx sy) d)))
                   (py (toEdge (slopeSegment (slopeAnchors sx sy) d))) eh
                   (Some \<lparr>px = perpX (slopeSegment (slopeAnchors sx sy) d),
                          py = perpY (slopeSegment (slopeAnchors sx sy) d)\<rparr>) style
            else [])
         @ [SetStrokeStyle COLORS_tie, SetLineWidth 3, SetLineCap ''butt'']
         @ rest)"
  using straight_support_prefix [of h sx sy d style c]
    curved_support_prefix [of h sx sy d r c style]
    drawSupport_default_perp [of x0 gy h style]
    slope_support [of sx sy d sh eh c style]
  by (intro conjI impI) assumption+

theorem support_delegation_witness:
  "(0::real) < 1
   \<and> prefix (drawSupport 32 19.2 1 (Some \<lparr>px = 5 / sqrt 34, py = - 3 / sqrt 34\<rparr>) Metal)
            (drawStraightTrack 0 0 North 1 COLORS_rail Metal)
   \<and> (\<exists>rest. drawCurvedTrack 0 0 North True 1 COLORS_rail Metal =
         Some (drawSupport 32 14.4 1 None Metal @ rest))
   \<and> (\<exists>rest. drawSlopeTrack 0 0 South 0 1 COLORS_rail Metal =
         drawSupport 48 28.8 1 (Some \<lparr>px = 5 / sqrt 34, py = - 3 / sqrt 34\<rparr>) Metal
         @ [SetStrokeStyle COLORS_tie, SetLineWidth 3, SetLineCap ''butt''] @ rest)"
proof -
  have s: "prefix (drawSupport 32 19.2 1 (Some \<lparr>px = 5 / sqrt 34, py = - 3 / sqrt 34\<rparr>) Metal)
            (drawStraightTrack 0 0 North 1 COLORS_rail Metal)
     \<and> (\<exists>rest. drawCurvedTrack 0 0 North True 1 COLORS_rail Metal =
         Some (drawSupport 32 14.4 1 None Metal @ rest))"
    using support_delegation [where h = 1 and sx = 0 and sy = 0 and d = North and c = COLORS_rail
      and style = Metal and r = True and ?x0.0 = 0 and gy = 0 and sh = 0 and eh = 0]
    by (simp add: straightCenter_tile straightSegment_tile curved_mid_example)
  have "\<exists>rest. drawSlopeTrack 0 0 South 0 1 COLORS_rail Metal =
         drawSupport 48 28.8 1 (Some \<lparr>px = 5 / sqrt 34, py = - 3 / sqrt 34\<rparr>) Metal
         @ [SetStrokeStyle COLORS_tie, SetLineWidth 3, SetLineCap ''butt''] @ rest"
    using support_delegation [where h = 1 and sx = 0 and sy = 0 and d = South and c = COLORS_rail
      and style = Metal and r = True and ?x0.0 = 0 and gy = 0 and sh = 0 and eh = 1]
    by (simp add: slopeSegment_south)
  with s show ?thesis by simp
qed

text \<open>
  The claim as stated fails for the turn: at the origin, entering from the north and
  turning right at height 1, the perpendicular of the ground plane at the curve midpoint
  is (0, 1), and the operations of \<^verbatim>\<open>drawCurvedTrack\<close> do not start with the support
  drawn along it.
\<close>

theorem curved_support_perp_counterexample:
  "drawCurvedTrack 0 0 North True 1 COLORS_rail Metal \<noteq> None
   \<and> curvePerp (fst (curvedEdges (curvedAnchors 0 0 0) North True))
        (center (curvedAnchors 0 0 0)) (snd (curvedEdges (curvedAnchors 0 0 0) North True)) (1/2)
      = Some \<lparr>px = 0, py = 1\<rparr>
   \<and> \<not> prefix (drawSupport 32 14.4 1 (Some \<lparr>px = 0, py = 1\<rparr>) Metal)
              (the (drawCurvedTrack 0 0 North True 1 COLORS_rail Metal))"
proof -
  obtain rest where ops: "drawCurvedTrack 0 0 North True 1 COLORS_rail Metal =
      Some (drawSupport 32 14.4 1 None Metal @ rest)"
    using curved_support_prefix [of 1 0 0 North True COLORS_rail Metal]
    by (auto simp: curved_mid_example)
  have "\<not> prefix (drawSupport 32 14.4 1 (Some \<lparr>px = 0, py = 1\<rparr>) Metal)
              (drawSupport 32 14.4 1 None Metal @ rest)"
  proof
    assume "prefix (drawSupport 32 14.4 1 (Some \<lparr>px = 0, py = 1\<rparr>) Metal)
              (drawSupport 32 14.4 1 None Metal @ rest)"
    then obtain zs where "drawSupport 32 14.4 1 None Metal @ rest =
        drawSupport 32 14.4 1 (Some \<lparr>px = 0, py = 1\<rparr>) Metal @ zs"
      by (auto simp: prefix_def)
    then have "(drawSupport 32 14.4 1 None Metal @ rest) ! 4 =
        (drawSupport 32 14.4 1 (Some \<lparr>px = 0, py = 1\<rparr>) Metal @ zs) ! 4"
      by simp
    then have "drawSupport 32 14.4 1 None Metal ! 4 =
        drawSupport 32 14.4 1 (Some \<lparr>px = 0, py = 1\<rparr>) Metal ! 4"
      by (simp add: nth_append metal_support_length)
    then show False
      by (simp add: metal_support_nth4)
  qed
  then show ?thesis
    using ops by (simp add: curved_perp_example)
qed

text \<open>
  C1. Edge continuity: let a segment stand on the cell \<open>(gx, gy)\<close> and another on the
  next cell in direction \<open>d\<close>, both at the height \<open>h\<close> at their common boundary, with tile
  origins from \<^verbatim>\<open>gridToScreen\<close>. The end of a straight segment on its side \<open>d\<close> is the
  edge midpoint \<open>d\<close> of its tile, the entry anchor of a turn is the opposite edge midpoint
  of the next tile, and the two screen points are equal, for every direction, height and
  turn. The same holds for the anchors of the straight and the curved renderer in any
  combination, and for the exit point of a slope that ends at the height \<open>h\<close> and the entry
  point of a slope that starts at the height \<open>h\<close>.
\<close>

theorem edge_continuity:
  "(let o1 = gridToScreen gx gy;
        n = neighbour d (gx, gy);
        o2 = gridToScreen (fst n) (snd n);
        s1 = straightSegment (straightAnchors (px o1) (py o1) h) d;
        exit1 = (if d = North \<or> d = East then fromEdge s1 else toEdge s1);
        entry2 = fst (curvedEdges (curvedAnchors (px o2) (py o2) h) (opposite d) r);
        slopeExit1 = \<lparr>px = px (toEdge (slopeSegment (slopeAnchors (px o1) (py o1)) d)),
                       py = py (toEdge (slopeSegment (slopeAnchors (px o1) (py o1)) d))
                            - h * HEIGHT_UNIT\<rparr>;
        slopeEntry2 = \<lparr>px = px (fromEdge (slopeSegment (slopeAnchors (px o2) (py o2)) d)),
                        py = py (fromEdge (slopeSegment (slopeAnchors (px o2) (py o2)) d))
                             - h * HEIGHT_UNIT\<rparr>
    in exit1 = edgeOf (straightAnchors (px o1) (py o1) h) d \<and>
       entry2 = edgeOf (curvedAnchors (px o2) (py o2) h) (opposite d) \<and>
       exit1 = entry2 \<and>
       edgeOf (curvedAnchors (px o1) (py o1) h) d
         = edgeOf (straightAnchors (px o2) (py o2) h) (opposite d) \<and>
       edgeOf (straightAnchors (px o1) (py o1) h) d
         = edgeOf (straightAnchors (px o2) (py o2) h) (opposite d) \<and>
       edgeOf (curvedAnchors (px o1) (py o1) h) d
         = edgeOf (curvedAnchors (px o2) (py o2) h) (opposite d) \<and>
       exit1 = slopeEntry2 \<and> slopeExit1 = entry2 \<and> slopeExit1 = slopeEntry2)"
  unfolding Let_def
  by (simp only: straight_end_on_side curved_entry anchors_agree slope_ends slope_edge_lifted
      edge_shared [symmetric] simp_thms)

text \<open>
  C8. Loop closure: for every direction and loop height, the last two strokes of
  \<^verbatim>\<open>drawLoopTrack\<close> are the two rails, each a polyline of 33 sampled points, the first
  at the angle 0 and the last at the angle \<open>2 * pi\<close>, and the first and the last point
  coincide.
\<close>

theorem loop_rails_closed:
  "(let cx = sx + TILE_WIDTH / 2;
        cy = sy + TILE_HEIGHT / 2;
        rad = max 28 (lh * HEIGHT_UNIT * 0.4);
        leftRail = map (loopRailPoint cx cy (DIRECTIONS d) rad (TRACK_WIDTH / 2) 32 (- 1)) [0..32];
        rightRail = map (loopRailPoint cx cy (DIRECTIONS d) rad (TRACK_WIDTH / 2) 32 1) [0..32]
    in (\<exists>pre. strokes st path (drawLoopTrack sx sy d lh c style)
               = pre @ [(c, leftRail), (c, rightRail)]) \<and>
       hd leftRail = getLoopPoint cx cy (DIRECTIONS d) rad (TRACK_WIDTH / 2) 0 (- 1) \<and>
       last leftRail = getLoopPoint cx cy (DIRECTIONS d) rad (TRACK_WIDTH / 2) (2 * pi) (- 1) \<and>
       hd rightRail = getLoopPoint cx cy (DIRECTIONS d) rad (TRACK_WIDTH / 2) 0 1 \<and>
       last rightRail = getLoopPoint cx cy (DIRECTIONS d) rad (TRACK_WIDTH / 2) (2 * pi) 1 \<and>
       hd leftRail = last leftRail \<and> hd rightRail = last rightRail)"
  unfolding Let_def
  using drawLoopTrack_strokes [of st path sx sy d lh c style]
  by (simp add: hd_last_upto32 loopRailPoint_closed)
     (simp add: loopRailPoint_def getLoopPoint_def Let_def mult.commute)

text \<open>
  C10. For every call of \<^verbatim>\<open>drawChainLift\<close> with \<open>tickOffset \<ge> 0\<close>, every link mark
  drawn (the centre of every arc) is the point of the chain segment at a parameter
  \<open>t = (i * linkSpacing + tickOffset % linkSpacing) / length\<close> with \<open>0 \<le> t \<le> 1\<close>, for a
  loop index \<open>i\<close> from 0 to \<^verbatim>\<open>numLinks\<close> = 11.
\<close>

theorem chain_links_on_segment:
  "0 \<le> tickOffset \<Longrightarrow>
   p \<in> set (arcCentres (drawChainLift sx sy d sh eh tickOffset)) \<Longrightarrow>
   \<exists>i t. 0 \<le> i \<and> i \<le> 11 \<and>
         t = (of_int i * 4 + jsRem tickOffset 4) / (TILE_WIDTH * 0.7) \<and>
         0 \<le> t \<and> t \<le> 1 \<and>
         p = linkAt (chainStart sx sy d sh) (chainEnd sx sy d eh) t"
proof -
  assume tick: "0 \<le> tickOffset"
  assume "p \<in> set (arcCentres (drawChainLift sx sy d sh eh tickOffset))"
  then obtain i :: int where i: "0 \<le> i" "i \<le> 11"
    and le: "(of_int i * 4 + jsRem tickOffset 4) / (TILE_WIDTH * 0.7) \<le> 1"
    and p: "p = linkAt (chainStart sx sy d sh) (chainEnd sx sy d eh)
                  ((of_int i * 4 + jsRem tickOffset 4) / (TILE_WIDTH * 0.7))"
    using chain_link_params by blast
  have "0 \<le> of_int i * 4 + jsRem tickOffset 4"
    using i jsRem_nonneg [OF tick] by simp
  then have "0 \<le> (of_int i * 4 + jsRem tickOffset 4) / (TILE_WIDTH * 0.7)"
    by (simp add: TILE_WIDTH_def)
  then show ?thesis
    using i le p by (intro exI [of _ i] exI conjI refl) simp_all
qed

theorem chain_links_on_segment_witness:
  "(0::real) \<le> 2 \<and>
   linkAt (chainStart 0 0 South 0) (chainEnd 0 0 South 0) (2 / (TILE_WIDTH * 0.7))
     \<in> set (arcCentres (drawChainLift 0 0 South 0 0 2)) \<and>
   (\<exists>i t. 0 \<le> i \<and> i \<le> 11 \<and>
          t = (of_int i * 4 + jsRem 2 4) / (TILE_WIDTH * 0.7) \<and> 0 \<le> t \<and> t \<le> 1 \<and>
          linkAt (chainStart 0 0 South 0) (chainEnd 0 0 South 0) (2 / (TILE_WIDTH * 0.7))
            = linkAt (chainStart 0 0 South 0) (chainEnd 0 0 South 0) t)"
proof -
  have mem: "linkAt (chainStart 0 0 South 0) (chainEnd 0 0 South 0) (2 / (TILE_WIDTH * 0.7))
     \<in> set (arcCentres (drawChainLift 0 0 South 0 0 2))"
    using chain_link_mem [of 0 2 0 0 South 0 0]
    by (simp add: jsRem_examples TILE_WIDTH_def)
  have "(0::real) \<le> 2" by simp
  from chain_links_on_segment [OF this mem] mem show ?thesis by simp
qed

text \<open>
  C9 (amended). \<^verbatim>\<open>drawChainLift\<close> with \<open>tickOffset = 0\<close> and with \<open>tickOffset = 4\<close>
  performs the same operations, so the link positions are the same. More generally, for
  an integer tick \<open>n\<close> and an integer \<open>k\<close> such that \<open>n\<close> and \<open>n + k * linkSpacing\<close> are both
  at least 0 and below \<open>2 ^ 53\<close> (so that both are doubles and the remainder of each is
  exact), the operations, and so the set of link positions, are the same for the two ticks.
\<close>

theorem chain_phase_invariant:
  "0 \<le> n \<Longrightarrow> n < 2 ^ 53 \<Longrightarrow> 0 \<le> n + k * 4 \<Longrightarrow> n + k * 4 < 2 ^ 53 \<Longrightarrow>
   drawChainLift sx sy d sh eh (of_int (n + k * 4)) = drawChainLift sx sy d sh eh (of_int n)
   \<and> set (arcCentres (drawChainLift sx sy d sh eh (of_int (n + k * 4))))
       = set (arcCentres (drawChainLift sx sy d sh eh (of_int n)))"
proof -
  assume n: "0 \<le> n" "0 \<le> n + k * 4"
  have "(0::real) \<le> of_int (n + k * 4)"
    using n(2) by (simp only: of_int_0_le_iff)
  then have "(0::real) \<le> of_int n + of_int k * 4" by simp
  moreover have "(0::real) \<le> of_int n" using n(1) by simp
  ultimately have "jsRem (of_int n + of_int k * 4) 4 = jsRem (of_int n) 4"
    by (intro jsRem_shift)
  then have "drawChainLift sx sy d sh eh (of_int n + of_int k * 4)
      = drawChainLift sx sy d sh eh (of_int n)"
    unfolding drawChainLift_def Let_def by (simp only:)
  then show ?thesis by simp
qed

theorem chain_phase_invariant_witness:
  "(0::int) \<le> 0 \<and> (0::int) < 2 ^ 53 \<and> (0::int) \<le> 0 + 1 * 4 \<and> (0::int) + 1 * 4 < 2 ^ 53 \<and>
   drawChainLift 0 0 South 0 0 4 = drawChainLift 0 0 South 0 0 0 \<and>
   set (arcCentres (drawChainLift 0 0 South 0 0 4)) = set (arcCentres (drawChainLift 0 0 South 0 0 0))"
  using chain_phase_invariant [of 0 1 0 0 South 0 0] by simp

text \<open>
  The claim as stated fails across zero: the remainder of the source keeps the sign of
  \<open>tickOffset\<close>, so with \<open>tickOffset = - 2\<close> a link is drawn at \<open>t = - 2 / 44.8\<close>, before
  the start of the chain, and with \<open>tickOffset = - 2 + 4\<close> no link is drawn there.
\<close>

theorem chain_phase_counterexample:
  "set (arcCentres (drawChainLift 0 0 South 0 0 (- 2)))
     \<noteq> set (arcCentres (drawChainLift 0 0 South 0 0 (- 2 + 1 * 4)))"
proof -
  define p where "p = linkAt (chainStart 0 0 South 0) (chainEnd 0 0 South 0) (- 2 / (TILE_WIDTH * 0.7))"
  have "p \<in> set (arcCentres (drawChainLift 0 0 South 0 0 (- 2)))"
    unfolding p_def using chain_link_mem [of 0 "- 2" 0 0 South 0 0]
    by (simp add: jsRem_examples TILE_WIDTH_def)
  moreover have "p \<notin> set (arcCentres (drawChainLift 0 0 South 0 0 2))"
  proof
    assume "p \<in> set (arcCentres (drawChainLift 0 0 South 0 0 2))"
    then obtain i :: int where i: "0 \<le> i"
      and q: "p = linkAt (chainStart 0 0 South 0) (chainEnd 0 0 South 0)
                   ((of_int i * 4 + jsRem 2 4) / (TILE_WIDTH * 0.7))"
      using chain_link_params by blast
    have "px (chainStart 0 0 South 0) \<noteq> px (chainEnd 0 0 South 0)"
      by (simp add: chainStart_def chainEnd_def TILE_WIDTH_def Let_def)
    then have "- 2 / (TILE_WIDTH * 0.7) = (of_int i * 4 + jsRem 2 4) / (TILE_WIDTH * 0.7)"
      using q unfolding p_def by (rule linkAt_inj)
    then have "of_int i * 4 + 2 = (- 2 :: real)"
      by (simp add: jsRem_examples TILE_WIDTH_def)
    then show False using i by linarith
  qed
  ultimately show ?thesis by auto
qed

end
